theory Spec2Isabelle
  imports Complex_Main
begin

section \<open>Python values\<close>

text \<open>
  The pipeline passes plain dictionaries around (snapshots, invariant status, policy
  snapshots, parsed log lines).  A dictionary is an association list from keys to
  dynamically typed values.  A number is the real it denotes, a float or an int.
\<close>

datatype pyval =
    PyNone
  | PyBool bool
  | PyNum real
  | PyStr string
  | PyList "pyval list"
  | PyDict "(string \<times> pyval) list"

type_synonym pydict = "(string \<times> pyval) list"

datatype py_error = TypeError | KeyError | AttributeError

text \<open>\<^verbatim>\<open>d.get(k, default)\<close>\<close>

definition dict_get :: "pydict \<Rightarrow> string \<Rightarrow> pyval \<Rightarrow> pyval" where
  "dict_get d k dflt = (case map_of d k of None \<Rightarrow> dflt | Some v \<Rightarrow> v)"

text \<open>Truth value of an object in a condition.\<close>

fun truthy :: "pyval \<Rightarrow> bool" where
  "truthy PyNone = False"
| "truthy (PyBool b) = b"
| "truthy (PyNum r) = (r \<noteq> 0)"
| "truthy (PyStr s) = (s \<noteq> [])"
| "truthy (PyList xs) = (xs \<noteq> [])"
| "truthy (PyDict d) = (d \<noteq> [])"

text \<open>\<^verbatim>\<open>s.startswith(p)\<close> and the substring test \<^verbatim>\<open>sub in s\<close>.\<close>

fun startswith :: "'a list \<Rightarrow> 'a list \<Rightarrow> bool" where
  "startswith s [] = True"
| "startswith [] (p # ps) = False"
| "startswith (c # cs) (p # ps) = (c = p \<and> startswith cs ps)"

fun contains :: "'a list \<Rightarrow> 'a list \<Rightarrow> bool" where
  "contains [] sub = (sub = [])"
| "contains (c # cs) sub = (startswith (c # cs) sub \<or> contains cs sub)"

text \<open>
  The numeric reading of a value in arithmetic and ordering: numbers, and booleans as 0 and
  1; every other value raises \<^verbatim>\<open>TypeError\<close> there.
\<close>

fun as_number :: "pyval \<Rightarrow> real option" where
  "as_number (PyNum r) = Some r"
| "as_number (PyBool b) = Some (if b then 1 else 0)"
| "as_number v = None"

text \<open>
  \<^verbatim>\<open>s in v\<close> for a string \<open>s\<close>: membership in a list, substring of a string, key of a
  dictionary; the other values are not iterable.
\<close>

fun py_in_str :: "string \<Rightarrow> pyval \<Rightarrow> py_error + bool" where
  "py_in_str s (PyList xs) = Inr (PyStr s \<in> set xs)"
| "py_in_str s (PyStr t) = Inr (contains t s)"
| "py_in_str s (PyDict d) = Inr (s \<in> fst ` set d)"
| "py_in_str s v = Inl TypeError"

text \<open>Rounding to the nearest integer, an exact tie going to the even one.\<close>

definition round_half_even :: "real \<Rightarrow> int" where
  "round_half_even y =
     (let f = \<lfloor>y\<rfloor>; d = y - of_int f
      in if d < 1 / 2 then f else if d > 1 / 2 then f + 1 else if even f then f else f + 1)"

section \<open>Binary64 arithmetic\<close>

text \<open>
  A float is the real number it denotes; the finite doubles are the numbers
  \<open>m * 2 powi q\<close> with \<open>\<bar>m\<bar> < 2 ^ 53\<close> and \<open>q \<ge> -1074\<close>.  An arithmetic operation on
  floats returns the exact result rounded to the nearest double, a tie going to the even
  significand.  The floats of the functions below are finite, and no computation on them
  leaves the range of the finite doubles, so overflow has no case here.

  \<open>flog2 x\<close> is the binary exponent of a positive number: \<open>2 powi flog2 x \<le> x < 2 powi (flog2 x + 1)\<close>.
\<close>

function flog2 :: "real \<Rightarrow> int" where
  "flog2 x = (if x \<le> 0 then 0
              else if 2 \<le> x then flog2 (x / 2) + 1
              else if x < 1 then flog2 (x * 2) - 1
              else 0)"
  by pat_completeness auto
termination
proof (relation "measure (\<lambda>x. nat (2 * \<lceil>1 / x\<rceil> + \<lceil>x\<rceil>))")
  show "wf (measure (\<lambda>x. nat (2 * \<lceil>1 / x\<rceil> + \<lceil>x\<rceil>)))" by simp
next
  fix x :: real
  assume "\<not> x \<le> 0" and x2: "2 \<le> x"
  have a: "\<lceil>1 / x\<rceil> = 1" using x2 by (intro ceiling_unique) (auto simp: field_simps)
  have b: "\<lceil>1 / (x / 2)\<rceil> = 1" using x2 by (intro ceiling_unique) (auto simp: field_simps)
  have "x / 2 \<le> x - 1" using x2 by simp
  then have "\<lceil>x / 2\<rceil> \<le> \<lceil>x - 1\<rceil>" by (rule ceiling_mono)
  then have c: "\<lceil>x / 2\<rceil> < \<lceil>x\<rceil>" by simp
  have d: "0 < \<lceil>x\<rceil>" using x2 by simp
  show "(x / 2, x) \<in> measure (\<lambda>x. nat (2 * \<lceil>1 / x\<rceil> + \<lceil>x\<rceil>))"
    unfolding in_measure zless_nat_conj using a b c d by linarith
next
  fix x :: real
  assume x0: "\<not> x \<le> 0" and "\<not> 2 \<le> x" and x1: "x < 1"
  have a: "\<lceil>x\<rceil> = 1" using x0 x1 by (intro ceiling_unique) auto
  have b: "\<lceil>x * 2\<rceil> \<le> 2" using x1 by (simp add: ceiling_le_iff)
  have b0: "0 < \<lceil>x * 2\<rceil>" using x0 by simp
  have y: "1 < 1 / x" using x0 x1 by (simp add: field_simps)
  then have n2: "2 \<le> \<lceil>1 / x\<rceil>" by linarith
  have "1 / (x * 2) \<le> of_int \<lceil>1 / x\<rceil> / 2"
    using le_of_int_ceiling [of "1 / x"] by (simp add: field_simps)
  also have "\<dots> \<le> of_int (\<lceil>1 / x\<rceil> - 1)" using n2 by simp
  finally have "1 / (x * 2) \<le> of_int (\<lceil>1 / x\<rceil> - 1)" .
  then have c: "\<lceil>1 / (x * 2)\<rceil> \<le> \<lceil>1 / x\<rceil> - 1" by (rule ceiling_le)
  show "(x * 2, x) \<in> measure (\<lambda>x. nat (2 * \<lceil>1 / x\<rceil> + \<lceil>x\<rceil>))"
    unfolding in_measure zless_nat_conj using a b c n2 by linarith
qed

declare flog2.simps [simp del]

text \<open>
  The spacing of the doubles around \<open>x\<close> is \<open>2 powi quantum x\<close>: 52 binary places below
  the leading one, and no finer than \<open>2 powi -1074\<close> (the subnormal range).
\<close>

definition quantum :: "real \<Rightarrow> int" where
  "quantum x = max (flog2 x) (- 1022) - 52"

definition round_magnitude :: "real \<Rightarrow> real" where
  "round_magnitude x = of_int (round_half_even (x / 2 powi quantum x)) * 2 powi quantum x"

text \<open>The double nearest to a real number; a literal \<^verbatim>\<open>0.4\<close> of the source is \<open>to_double 0.4\<close>.\<close>

definition to_double :: "real \<Rightarrow> real" where
  "to_double x = (if x < 0 then - round_magnitude (- x)
                  else if x = 0 then 0 else round_magnitude x)"

text \<open>The four operations on floats.\<close>

definition fadd :: "real \<Rightarrow> real \<Rightarrow> real" where
  "fadd a b = to_double (a + b)"

definition fsub :: "real \<Rightarrow> real \<Rightarrow> real" where
  "fsub a b = to_double (a - b)"

definition fmul :: "real \<Rightarrow> real \<Rightarrow> real" where
  "fmul a b = to_double (a * b)"

definition fdiv :: "real \<Rightarrow> real \<Rightarrow> real" where
  "fdiv a b = to_double (a / b)"

text \<open>
  \<^verbatim>\<open>round(x, ndigits)\<close> on a float: the exact value of \<open>x\<close> rounded to \<open>ndigits\<close> decimals,
  an exact tie going to the even neighbour, and the double nearest to that decimal.
\<close>

definition py_round :: "real \<Rightarrow> nat \<Rightarrow> real" where
  "py_round x ndigits = to_double (of_int (round_half_even (x * 10 ^ ndigits)) / 10 ^ ndigits)"

section \<open>actuation\_threshold.py\<close>

record decision_record =
  decision :: string
  reason :: string

definition DEFAULT_CONFIDENCE_THRESHOLD :: real where
  "DEFAULT_CONFIDENCE_THRESHOLD = 0.75"

definition may_act :: "real \<Rightarrow> pydict \<Rightarrow> pydict option \<Rightarrow> real \<Rightarrow> decision_record" where
  "may_act confidence invariant_status policy_snapshot threshold =
    (if dict_get invariant_status ''status'' PyNone \<noteq> PyStr ''CLEAN'' then
       \<lparr>decision = ''DENY'', reason = ''invariants not clean''\<rparr>
     else if confidence < threshold then
       \<lparr>decision = ''DENY'', reason = ''confidence below threshold''\<rparr>
     else if (case policy_snapshot of
                None \<Rightarrow> False
              | Some p \<Rightarrow> p \<noteq> [] \<and> \<not> truthy (dict_get p ''allow_action'' (PyBool True))) then
       \<lparr>decision = ''DENY'', reason = ''policy prohibits action''\<rparr>
     else
       \<lparr>decision = ''ALLOW'', reason = ''all thresholds satisfied''\<rparr>)"

section \<open>confidence.py\<close>

text \<open>\<^verbatim>\<open>clamp01\<close> of intelligence\_layer.py.\<close>

definition clamp01 :: "real \<Rightarrow> real" where
  "clamp01 x = max 0.0 (min 1.0 x)"

text \<open>
  The arithmetic of \<open>compute_confidence\<close> is float arithmetic.  The first operand of the
  product is a float or, when the snapshot holds an int, the int converted to a float (an
  int within the range of the floats, as a mean entropy is).
\<close>

definition compute_confidence :: "pydict option \<Rightarrow> pydict option \<Rightarrow> py_error + real" where
  "compute_confidence gate_snapshot invariant_status =
    (case (case gate_snapshot of
             None \<Rightarrow> Inr (PyNum 0.0, False)
           | Some g \<Rightarrow>
               if g = [] then Inr (PyNum 0.0, False)
               else (case py_in_str ''stabilize'' (dict_get g ''active_constraints'' (PyList [])) of
                       Inl e \<Rightarrow> Inl e
                     | Inr st \<Rightarrow> Inr (dict_get g ''mean_entropy'' (PyNum 0.0), st)))
     of Inl e \<Rightarrow> Inl e
      | Inr (entropy, stabilized) \<Rightarrow>
         (let invariant_clean =
                (case invariant_status of
                   None \<Rightarrow> True
                 | Some i \<Rightarrow> if i = [] then True
                             else dict_get i ''status'' (PyStr ''CLEAN'') = PyStr ''CLEAN'')
          in case as_number entropy of
               None \<Rightarrow> Inl TypeError
             | Some en \<Rightarrow>
                 (let confidence = 1.0;
                      confidence = fsub confidence (fmul (to_double (min en 1.0)) (to_double 0.4));
                      confidence = (if stabilized then fsub confidence (to_double 0.2)
                                    else confidence);
                      confidence = (if \<not> invariant_clean then 0.0 else confidence)
                  in Inr (py_round (max 0.0 (min confidence 1.0)) 3))))"

text \<open>
  The inputs the score is a function of.  A typed snapshot is one whose
  \<open>mean_entropy\<close> entry, when present, is a number and whose \<open>active_constraints\<close> entry,
  when present, is a list, as every snapshot built by the gate is.
\<close>

definition snapshot_typed :: "pydict option \<Rightarrow> bool" where
  "snapshot_typed gs =
     (case gs of
        None \<Rightarrow> True
      | Some g \<Rightarrow>
          (case map_of g ''mean_entropy'' of None \<Rightarrow> True | Some v \<Rightarrow> as_number v \<noteq> None)
          \<and> (case map_of g ''active_constraints'' of
                None \<Rightarrow> True | Some (PyList xs) \<Rightarrow> True | Some v \<Rightarrow> False))"

definition snapshot_entropy :: "pydict option \<Rightarrow> real" where
  "snapshot_entropy gs =
     (case gs of
        None \<Rightarrow> 0
      | Some g \<Rightarrow>
          (case map_of g ''mean_entropy'' of
             None \<Rightarrow> 0
           | Some v \<Rightarrow> (case as_number v of None \<Rightarrow> 0 | Some r \<Rightarrow> r)))"

definition snapshot_stabilized :: "pydict option \<Rightarrow> bool" where
  "snapshot_stabilized gs =
     (case gs of
        None \<Rightarrow> False
      | Some g \<Rightarrow>
          (case map_of g ''active_constraints'' of
             Some (PyList xs) \<Rightarrow> PyStr ''stabilize'' \<in> set xs
           | _ \<Rightarrow> False))"

definition status_clean :: "pydict option \<Rightarrow> bool" where
  "status_clean ist =
     (case ist of
        None \<Rightarrow> True
      | Some i \<Rightarrow> (case map_of i ''status'' of None \<Rightarrow> True | Some v \<Rightarrow> v = PyStr ''CLEAN''))"

text \<open>
  The score as the specification words it,
  \<^verbatim>\<open>round(clamp01(1.0 - min(entropy, 1.0) * 0.4 - (0.2 if stabilized)), 3)\<close>, each operation
  being the operation on floats; the product takes \<^verbatim>\<open>min(entropy, 1.0)\<close> as a float, which
  changes nothing when the entropy is one and converts it when it is an int.
\<close>

definition confidence_formula :: "real \<Rightarrow> bool \<Rightarrow> bool \<Rightarrow> real" where
  "confidence_formula entropy stabilized invariant_clean =
     (if invariant_clean
      then py_round
             (clamp01
                (if stabilized
                 then fsub (fsub 1.0 (fmul (to_double (min entropy 1.0)) (to_double 0.4)))
                        (to_double 0.2)
                 else fsub 1.0 (fmul (to_double (min entropy 1.0)) (to_double 0.4)))) 3
      else 0.0)"

section \<open>Text\<close>

text \<open>
  A text is a string of code points below 256.  On these, the whitespace of
  \<^verbatim>\<open>str.strip\<close>, \<^verbatim>\<open>str.split\<close> and the pattern class \<^verbatim>\<open>\s\<close> is the tab to carriage
  return range, the four separators 28 to 31, the space, the next-line control 133 and the
  no-break space 160; the pattern class \<^verbatim>\<open>\w\<close> is the alphanumeric characters and the
  underscore; \<^verbatim>\<open>str.lower\<close> moves the capital letters 32 places up.
\<close>

definition is_space :: "char \<Rightarrow> bool" where
  "is_space c = (let n = (of_char c :: nat)
                 in (9 \<le> n \<and> n \<le> 13) \<or> (28 \<le> n \<and> n \<le> 32) \<or> n = 133 \<or> n = 160)"

definition is_word :: "char \<Rightarrow> bool" where
  "is_word c = (let n = (of_char c :: nat)
                in (48 \<le> n \<and> n \<le> 57) \<or> (65 \<le> n \<and> n \<le> 90) \<or> n = 95
                   \<or> (97 \<le> n \<and> n \<le> 122) \<or> n = 170 \<or> n = 178 \<or> n = 179 \<or> n = 181
                   \<or> n = 185 \<or> n = 186 \<or> (188 \<le> n \<and> n \<le> 190)
                   \<or> (192 \<le> n \<and> n \<le> 214) \<or> (216 \<le> n \<and> n \<le> 246) \<or> 248 \<le> n)"

definition lower_char :: "char \<Rightarrow> char" where
  "lower_char c = (let n = (of_char c :: nat)
                   in if (65 \<le> n \<and> n \<le> 90) \<or> (192 \<le> n \<and> n \<le> 222 \<and> n \<noteq> 215)
                      then char_of (n + 32) else c)"

definition lower :: "string \<Rightarrow> string" where
  "lower s = map lower_char s"

definition strip :: "string \<Rightarrow> string" where
  "strip s = rev (dropWhile is_space (rev (dropWhile is_space s)))"

text \<open>\<^verbatim>\<open>s.endswith(suffix)\<close>\<close>

definition endswith :: "string \<Rightarrow> string \<Rightarrow> bool" where
  "endswith s suffix = startswith (rev s) (rev suffix)"

text \<open>
  \<^verbatim>\<open>s.split()\<close>: the maximal runs of non-whitespace characters, in order.  The first
  argument is the run being read.
\<close>

fun split_run :: "string \<Rightarrow> string \<Rightarrow> string list" where
  "split_run cur [] = (if cur = [] then [] else [cur])"
| "split_run cur (c # cs) =
     (if is_space c then (if cur = [] then split_run [] cs else cur # split_run [] cs)
      else split_run (cur @ [c]) cs)"

definition split :: "string \<Rightarrow> string list" where
  "split s = split_run [] s"

text \<open>
  \<^verbatim>\<open>s.count(sub)\<close>: the occurrences of \<open>sub\<close> found from left to right without overlap.
  The counter \<open>skip\<close> is the number of characters of the last occurrence still to pass.
\<close>

fun count_from :: "string \<Rightarrow> nat \<Rightarrow> string \<Rightarrow> nat" where
  "count_from sub skip [] = 0"
| "count_from sub skip (c # cs) =
     (if 0 < skip then count_from sub (skip - 1) cs
      else if startswith (c # cs) sub then 1 + count_from sub (length sub - 1) cs
      else count_from sub 0 cs)"

definition count :: "string \<Rightarrow> string \<Rightarrow> nat" where
  "count s sub = (if sub = [] then length s + 1 else count_from sub 0 s)"

subsection \<open>The repeated-word pattern\<close>

text \<open>
  \<^verbatim>\<open>_RE_REPEAT = re.compile(r"\b(\w+)\b(?:\s+\1\b){2,}", re.IGNORECASE)\<close>.

  A match starts at a word boundary in front of a word character.  The group is then the
  whole run of word characters from there, since the boundary after it admits no shorter
  one.  Each repetition is a non-empty run of whitespace (all of it, since the group
  starts with a word character), the group again, compared without regard to case, and a
  boundary, which here is the end of the text or a character that is not a word
  character.  Two repetitions make a match.
\<close>

definition match_group :: "string \<Rightarrow> string \<Rightarrow> string option" where
  "match_group w s =
     (if length w \<le> length s \<and> lower (take (length w) s) = lower w
      then Some (drop (length w) s) else None)"

definition match_repetition :: "string \<Rightarrow> string \<Rightarrow> string option" where
  "match_repetition w s =
     (case s of
        [] \<Rightarrow> None
      | c # cs \<Rightarrow>
          if \<not> is_space c then None
          else (case match_group w (dropWhile is_space cs) of
                  None \<Rightarrow> None
                | Some r \<Rightarrow> (case r of [] \<Rightarrow> Some r
                                     | d # ds \<Rightarrow> if is_word d then None else Some r)))"

definition match_here :: "string \<Rightarrow> bool" where
  "match_here s =
     (let w = takeWhile is_word s
      in w \<noteq> [] \<and>
         (case match_repetition w (dropWhile is_word s) of
            None \<Rightarrow> False
          | Some r \<Rightarrow> match_repetition w r \<noteq> None))"

text \<open>
  \<^verbatim>\<open>_RE_REPEAT.search(s)\<close> as a truth value: some position matches.  The flag says whether
  the character before the position is a word character.
\<close>

fun search_from :: "bool \<Rightarrow> string \<Rightarrow> bool" where
  "search_from prev_word [] = False"
| "search_from prev_word (c # cs) =
     ((\<not> prev_word \<and> is_word c \<and> match_here (c # cs)) \<or> search_from (is_word c) cs)"

definition RE_REPEAT_search :: "string \<Rightarrow> bool" where
  "RE_REPEAT_search s = search_from False s"

section \<open>intelligence\_layer.py\<close>

text \<open>
  The scores and thresholds of this module are stated over the real numbers: a score is
  the exact value of its formula, and a state holds any reals.
\<close>

record ILState =
  K_t :: real
  R_t :: real
  K_hist :: "real list"
  R_hist :: "real list"
  Kt_slope_2 :: real
  turn_index :: int
  cooldown_active :: bool
  cooldown_turns_left :: int
  cooldown_exit_K :: real
  cooldown_min_turns :: int
  last_segment_turn :: int
  invariants :: pydict
  trace_hash :: string

text \<open>\<^verbatim>\<open>ILState()\<close>, the state a session starts from.\<close>

definition ILState_default :: ILState where
  "ILState_default =
     \<lparr>K_t = 1.0, R_t = 0.0, K_hist = [], R_hist = [], Kt_slope_2 = 0.0, turn_index = 0,
      cooldown_active = False, cooldown_turns_left = 0, cooldown_exit_K = 0.90,
      cooldown_min_turns = 2, last_segment_turn = - 10, invariants = [], trace_hash = []\<rparr>"

subsection \<open>Heuristics\<close>

definition estimate_recursion :: "string \<Rightarrow> real" where
  "estimate_recursion text =
     (let t = lower text;
          repeats = (if RE_REPEAT_search t then 1.0 else 0.0);
          self_ref = sum_list (map (count t) [''again'', ''repeat'', ''as i said''])
      in clamp01 (0.6 * repeats + 0.1 * real self_ref))"

text \<open>
  \<open>estimate_coherence\<close> keeps the token set of its last non-returning-early call in the
  function attribute \<^verbatim>\<open>_last_tokens\<close>, read with the default \<^verbatim>\<open>set()\<close>.  The attribute is
  the first argument and the second component of the result.
\<close>

definition estimate_coherence :: "string set \<Rightarrow> string \<Rightarrow> real \<times> string set" where
  "estimate_coherence last_tokens text =
     (if strip text = [] then (0.0, last_tokens)
      else
        (let closure = (if \<exists>suffix \<in> set [''.'', ''!'', ''?'']. endswith (strip text) suffix
                        then 1.0 else 0.5);
             length_factor = clamp01 ((real_of_int (int (length text) - 80)) / 400.0);
             tokens = set (split (lower text));
             overlap = card (tokens \<inter> last_tokens);
             soft_penalty = clamp01 (real overlap / 20.0) * 0.15;
             hard_penalty = (if RE_REPEAT_search (lower text) then 0.2 else 0.0);
             repeat_penalty = soft_penalty + hard_penalty
         in (clamp01 (0.6 * closure + 0.4 * length_factor - repeat_penalty), tokens)))"

subsection \<open>The trace digest\<close>

text \<open>Decimal digits of an integer, as \<^verbatim>\<open>json.dumps\<close> writes it.\<close>

function show_nat :: "nat \<Rightarrow> string" where
  "show_nat n = (if n < 10 then [char_of (48 + n)]
                 else show_nat (n div 10) @ [char_of (48 + n mod 10)])"
  by pat_completeness auto
termination
  by (relation "measure id") auto

definition show_int :: "int \<Rightarrow> string" where
  "show_int i = (if i < 0 then CHR ''-'' # show_nat (nat (- i)) else show_nat (nat i))"

fun join :: "string \<Rightarrow> string list \<Rightarrow> string" where
  "join sep [] = []"
| "join sep [x] = x"
| "join sep (x # y # ys) = x @ sep @ join sep (y # ys)"

text \<open>
  \<^verbatim>\<open>json.dumps({"K": K_hist, "R": R_hist, "t": turn_index}, sort_keys=True)\<close>.  The text of
  a float is that of the interpreter's \<^verbatim>\<open>float.__repr__\<close>, the parameter \<open>float_repr\<close>.
\<close>

definition json_list :: "(real \<Rightarrow> string) \<Rightarrow> real list \<Rightarrow> string" where
  "json_list float_repr xs = ''['' @ join '', '' (map float_repr xs) @ '']''"

definition json_dumps_trace :: "(real \<Rightarrow> string) \<Rightarrow> real list \<Rightarrow> real list \<Rightarrow> int \<Rightarrow> string" where
  "json_dumps_trace float_repr K R t =
     ''{'' @ [CHR 0x22] @ ''K'' @ [CHR 0x22] @ '': '' @ json_list float_repr K @ '', ''
       @ [CHR 0x22] @ ''R'' @ [CHR 0x22] @ '': '' @ json_list float_repr R @ '', ''
       @ [CHR 0x22] @ ''t'' @ [CHR 0x22] @ '': '' @ show_int t @ ''}''"

text \<open>
  \<^verbatim>\<open>hashlib.sha256(s.encode()).hexdigest()[:16]\<close>.  The digest of the standard library is
  the parameter \<open>sha256_hexdigest\<close>, from the encoded text to its hexadecimal digest.
\<close>

definition trace_digest ::
  "(string \<Rightarrow> string) \<Rightarrow> (real \<Rightarrow> string) \<Rightarrow> real list \<Rightarrow> real list \<Rightarrow> int \<Rightarrow> string" where
  "trace_digest sha256_hexdigest float_repr K R t =
     take 16 (sha256_hexdigest (json_dumps_trace float_repr K R t))"

subsection \<open>State update and dynamics\<close>

record turn_metrics =
  m_turn :: int
  m_K_t :: real
  m_R_t :: real
  m_Kt_slope_2 :: real
  m_cooldown :: bool
  m_trace_hash :: string

text \<open>\<^verbatim>\<open>xs[-n:]\<close>\<close>

definition last_n :: "nat \<Rightarrow> 'a list \<Rightarrow> 'a list" where
  "last_n n xs = drop (length xs - n) xs"

text \<open>
  \<open>update_state\<close> mutates the state and the estimator's attribute; both are returned next
  to the metrics.  Its body is read in four steps, in the order of the source: the counter
  and the two histories, the slope, the digest, the cooldown.
\<close>

definition push_turn :: "real \<Rightarrow> real \<Rightarrow> ILState \<Rightarrow> ILState" where
  "push_turn K R state =
     state\<lparr>turn_index := turn_index state + 1,
           K_hist := last_n 6 (K_hist state @ [K]),
           R_hist := last_n 6 (R_hist state @ [R])\<rparr>"

definition set_slope :: "ILState \<Rightarrow> ILState" where
  "set_slope state =
     (if length (K_hist state) \<ge> 3
      then state\<lparr>Kt_slope_2 :=
             (last (K_hist state) - K_hist state ! (length (K_hist state) - 3)) / 2.0\<rparr>
      else state\<lparr>Kt_slope_2 := 0.0\<rparr>)"

definition set_trace_hash :: "(string \<Rightarrow> string) \<Rightarrow> (real \<Rightarrow> string) \<Rightarrow> ILState \<Rightarrow> ILState" where
  "set_trace_hash sha256_hexdigest float_repr state =
     state\<lparr>trace_hash :=
             trace_digest sha256_hexdigest float_repr
               (K_hist state) (R_hist state) (turn_index state)\<rparr>"

definition cooldown_step :: "ILState \<Rightarrow> ILState" where
  "cooldown_step state =
     (if cooldown_active state then
        (let state = state\<lparr>cooldown_turns_left := cooldown_turns_left state - 1\<rparr>;
             served = (turn_index state - last_segment_turn state \<ge> cooldown_min_turns state)
         in if served \<and> cooldown_turns_left state \<le> 0 \<and> K_t state \<ge> cooldown_exit_K state
            then state\<lparr>cooldown_active := False\<rparr>
            else state)
      else state)"

definition update_state ::
  "(string \<Rightarrow> string) \<Rightarrow> (real \<Rightarrow> string) \<Rightarrow> string set \<Rightarrow> ILState \<Rightarrow> string
     \<Rightarrow> turn_metrics \<times> ILState \<times> string set" where
  "update_state sha256_hexdigest float_repr last_tokens state text =
     (let (K, last_tokens') = estimate_coherence last_tokens text;
          R = estimate_recursion text;
          state = push_turn K R state;
          state = set_slope state;
          state = state\<lparr>K_t := K, R_t := R\<rparr>;
          state = set_trace_hash sha256_hexdigest float_repr state;
          state = cooldown_step state
      in (\<lparr>m_turn = turn_index state, m_K_t = K_t state, m_R_t = R_t state,
           m_Kt_slope_2 = Kt_slope_2 state, m_cooldown = cooldown_active state,
           m_trace_hash = trace_hash state\<rparr>,
          state, last_tokens'))"

definition acceleration_trigger :: "ILState \<Rightarrow> bool" where
  "acceleration_trigger state = (Kt_slope_2 state < - 0.15 \<and> R_t state > 0.80)"

definition saturation_trigger :: "ILState \<Rightarrow> bool" where
  "saturation_trigger state =
     (R_t state > 0.80
      \<and> K_t state < 0.45
      \<and> length (K_hist state) \<ge> 3
      \<and> list_all (\<lambda>k. k < 0.45) (last_n 3 (K_hist state)))"

definition should_segment :: "ILState \<Rightarrow> bool" where
  "should_segment state =
     (let trigger = (acceleration_trigger state \<or> saturation_trigger state)
      in if cooldown_active state then trigger \<and> Kt_slope_2 state < - 0.30
         else trigger)"



section \<open>intelligence\_gate.py\<close>

definition WINDOW_SIZE :: nat where
  "WINDOW_SIZE = 10"

text \<open>
  \<^verbatim>\<open>ENTROPY_MAX\<close> is read from the environment when the module is loaded, 0.30 when the
  variable is not set; the functions below take it as their first argument.
\<close>

definition ENTROPY_MAX_default :: real where
  "ENTROPY_MAX_default = to_double 0.30"

text \<open>
  The gate object.  \<open>entropy_window\<close> is the \<^verbatim>\<open>deque(maxlen=WINDOW_SIZE)\<close>, oldest sample
  first; \<open>active_constraints\<close> is the set of tags, kept as a list without repetition.
\<close>

record IntelligenceGate =
  entropy_window :: "real list"
  active_constraints :: "string list"
  identity_pressure :: real

definition IntelligenceGate_init :: IntelligenceGate where
  "IntelligenceGate_init = \<lparr>entropy_window = [], active_constraints = [], identity_pressure = 0.0\<rparr>"

text \<open>\<^verbatim>\<open>deque.append\<close> on a bounded deque: the leftmost element leaves when the bound is passed.\<close>

definition deque_append :: "nat \<Rightarrow> 'a list \<Rightarrow> 'a \<Rightarrow> 'a list" where
  "deque_append maxlen w x = (let w' = w @ [x] in if length w' > maxlen then tl w' else w')"

definition extract_signal :: "string \<Rightarrow> string" where
  "extract_signal text = strip text"

definition measure_entropy :: "string \<Rightarrow> real" where
  "measure_entropy text =
     (if text = [] then 0.0 else fdiv (real (card (set text))) (real (length text)))"

text \<open>
  The builtin \<^verbatim>\<open>sum\<close> is a parameter of \<open>process\<close>, from the floats of the window to
  their sum as a float.  Up to CPython 3.11 it adds from left to right, starting from 0,
  which is \<open>float_sum\<close>; from 3.12 it also carries a compensation term for the rounding
  errors, which can change the last place of the result.
\<close>

definition float_sum :: "real list \<Rightarrow> real" where
  "float_sum xs = foldl fadd 0 xs"

definition process ::
  "(real list \<Rightarrow> real) \<Rightarrow> real \<Rightarrow> IntelligenceGate \<Rightarrow> string
     \<Rightarrow> pydict \<times> real \<times> IntelligenceGate" where
  "process builtin_sum ENTROPY_MAX gate text =
     (let signal = extract_signal text;
          entropy = measure_entropy signal;
          window = deque_append WINDOW_SIZE (entropy_window gate) entropy;
          mean_entropy = (if window \<noteq> []
                          then fdiv (builtin_sum window) (real (length window)) else 0.0);
          constraints = (if mean_entropy > ENTROPY_MAX then [''stabilize''] else []);
          snapshot = [(''entropy'', PyNum (py_round entropy 4)),
                      (''mean_entropy'', PyNum (py_round mean_entropy 4)),
                      (''active_constraints'', PyList (map PyStr constraints)),
                      (''identity_pressure'', PyNum (py_round (identity_pressure gate) 4))];
          dampening = (if ''stabilize'' \<in> set constraints then to_double 0.7 else 1.0)
      in (snapshot, dampening,
          gate\<lparr>entropy_window := window, active_constraints := constraints\<rparr>))"

text \<open>A sequence of calls on one gate: the results of the calls in order, and the gate left.\<close>

fun process_all ::
  "(real list \<Rightarrow> real) \<Rightarrow> real \<Rightarrow> IntelligenceGate \<Rightarrow> string list
     \<Rightarrow> (pydict \<times> real) list \<times> IntelligenceGate" where
  "process_all builtin_sum ENTROPY_MAX gate [] = ([], gate)"
| "process_all builtin_sum ENTROPY_MAX gate (t # ts) =
     (case process builtin_sum ENTROPY_MAX gate t of
        (snapshot, dampening, gate') \<Rightarrow>
          (case process_all builtin_sum ENTROPY_MAX gate' ts of
             (results, gate'') \<Rightarrow> ((snapshot, dampening) # results, gate'')))"

section \<open>invariants.py\<close>

text \<open>
  \<^verbatim>\<open>e[k]\<close> for a string key: the entry of a dictionary, \<^verbatim>\<open>KeyError\<close> when it has none,
  \<^verbatim>\<open>TypeError\<close> on every other value.
\<close>

fun subscript :: "pyval \<Rightarrow> string \<Rightarrow> py_error + pyval" where
  "subscript (PyDict d) k = (case map_of d k of None \<Rightarrow> Inl KeyError | Some v \<Rightarrow> Inr v)"
| "subscript v k = Inl TypeError"

text \<open>
  The five named rules.  A rule applied to an event returns a truth value or raises; the
  chained comparisons read the entry once and raise \<^verbatim>\<open>TypeError\<close> on a value that is not
  a number.
\<close>

definition entropy_bound :: "pyval \<Rightarrow> py_error + bool" where
  "entropy_bound e =
     (case subscript e ''entropy'' of
        Inl err \<Rightarrow> Inl err
      | Inr v \<Rightarrow> (case as_number v of
                    None \<Rightarrow> Inl TypeError
                  | Some r \<Rightarrow> Inr (0.0 \<le> r \<and> r \<le> 1.0)))"

definition mean_entropy_bound :: "pyval \<Rightarrow> py_error + bool" where
  "mean_entropy_bound e =
     (case subscript e ''mean_entropy'' of
        Inl err \<Rightarrow> Inl err
      | Inr v \<Rightarrow> (case as_number v of
                    None \<Rightarrow> Inl TypeError
                  | Some r \<Rightarrow> Inr (0.0 \<le> r \<and> r \<le> 1.0)))"

definition dampening_range :: "pyval \<Rightarrow> py_error + bool" where
  "dampening_range e =
     (case subscript e ''dampening'' of
        Inl err \<Rightarrow> Inl err
      | Inr v \<Rightarrow> (case as_number v of
                    None \<Rightarrow> Inl TypeError
                  | Some r \<Rightarrow> Inr (0.0 < r \<and> r \<le> 1.0)))"

definition no_identity_write :: "pyval \<Rightarrow> py_error + bool" where
  "no_identity_write e = py_in_str ''identity_pressure'' e"

definition constraints_explicit :: "pyval \<Rightarrow> py_error + bool" where
  "constraints_explicit e =
     (case e of
        PyDict d \<Rightarrow> Inr (case dict_get d ''active_constraints'' PyNone of
                          PyList xs \<Rightarrow> True
                        | _ \<Rightarrow> False)
      | _ \<Rightarrow> Inl AttributeError)"

definition INVARIANTS :: "(string \<times> (pyval \<Rightarrow> py_error + bool)) list" where
  "INVARIANTS =
     [(''entropy_bound'', entropy_bound),
      (''mean_entropy_bound'', mean_entropy_bound),
      (''dampening_range'', dampening_range),
      (''no_identity_write'', no_identity_write),
      (''constraints_explicit'', constraints_explicit)]"

text \<open>
  \<open>load_events\<close>.  The log is absent or a list of lines; \<^verbatim>\<open>json.loads\<close> of the standard
  library is the parameter \<open>json_loads\<close>, with no value on a line it rejects.
\<close>

fun read_lines :: "(string \<Rightarrow> pyval option) \<Rightarrow> string list \<Rightarrow> pyval list" where
  "read_lines json_loads [] = []"
| "read_lines json_loads (line # lines) =
     (case json_loads line of
        None \<Rightarrow> read_lines json_loads lines
      | Some e \<Rightarrow> e # read_lines json_loads lines)"

definition load_events :: "(string \<Rightarrow> pyval option) \<Rightarrow> string list option \<Rightarrow> pyval list" where
  "load_events json_loads logfile =
     (case logfile of None \<Rightarrow> [] | Some lines \<Rightarrow> read_lines json_loads lines)"

text \<open>
  A failure is the tuple the verifier appends: the index of the event, the name of the
  rule, and the event itself or the word "exception".
\<close>

datatype detail = Event pyval | Exception

type_synonym failure = "nat \<times> string \<times> detail"

fun check_rules ::
  "nat \<Rightarrow> pyval \<Rightarrow> (string \<times> (pyval \<Rightarrow> py_error + bool)) list \<Rightarrow> failure list \<Rightarrow> failure list" where
  "check_rules i e [] failures = failures"
| "check_rules i e ((name, rule) # rules) failures =
     check_rules i e rules
       (case rule e of
          Inr ok \<Rightarrow> if \<not> ok then failures @ [(i, name, Event e)] else failures
        | Inl err \<Rightarrow> failures @ [(i, name, Exception)])"

fun check_events :: "nat \<Rightarrow> pyval list \<Rightarrow> failure list \<Rightarrow> failure list" where
  "check_events i [] failures = failures"
| "check_events i (e # es) failures =
     check_events (Suc i) es (check_rules i e INVARIANTS failures)"

text \<open>
  The failures one event contributes under a list of rules: one for every rule that does
  not return true on it, in the order of the rules.
\<close>

definition violations ::
  "nat \<Rightarrow> pyval \<Rightarrow> (string \<times> (pyval \<Rightarrow> py_error + bool)) list \<Rightarrow> failure list" where
  "violations i e rules =
     map (\<lambda>(name, rule). (i, name, case rule e of Inr ok \<Rightarrow> Event e | Inl err \<Rightarrow> Exception))
       (filter (\<lambda>(name, rule). rule e \<noteq> Inr True) rules)"

text \<open>
  What \<open>verify\<close> prints: that there is no data, the violations as pairs of event index and
  rule name, or the counts of events and rules with the status CLEAN.
\<close>

datatype report =
    NoData
  | ViolationsDetected "(nat \<times> string) list"
  | InvariantsVerified nat nat

definition verify :: "(string \<Rightarrow> pyval option) \<Rightarrow> string list option \<Rightarrow> report \<times> int" where
  "verify json_loads logfile =
     (let events = load_events json_loads logfile
      in if events = [] then (NoData, 1)
         else
           (let failures = check_events 0 events []
            in if failures \<noteq> [] then
                 (ViolationsDetected (map (\<lambda>(idx, name, detail). (idx, name)) failures), 2)
               else (InvariantsVerified (length events) (length INVARIANTS), 0)))"

section \<open>Claims about the actuation gate\<close>

text \<open>
  C1.  Whenever the status entry of \<open>invariant_status\<close> is not the string CLEAN (or is
  missing), \<open>may_act\<close> returns DENY with reason "invariants not clean", for every
  confidence (1.0 included), threshold and policy snapshot.  Only when the status is CLEAN
  are the remaining checks consulted, confidence first and policy second: a confidence
  below the threshold gives "confidence below threshold" whatever the policy says, and the
  policy is decisive only once the confidence passes.
\<close>

theorem may_act_invariants_absolute:
  "(dict_get ist ''status'' PyNone \<noteq> PyStr ''CLEAN'' \<longrightarrow>
      may_act c ist pol thr = \<lparr>decision = ''DENY'', reason = ''invariants not clean''\<rparr>
      \<and> may_act 1.0 ist pol thr = \<lparr>decision = ''DENY'', reason = ''invariants not clean''\<rparr>)
   \<and> (dict_get ist ''status'' PyNone = PyStr ''CLEAN'' \<and> c < thr \<longrightarrow>
      may_act c ist pol thr = \<lparr>decision = ''DENY'', reason = ''confidence below threshold''\<rparr>)
   \<and> (dict_get ist ''status'' PyNone = PyStr ''CLEAN'' \<and> \<not> c < thr \<longrightarrow>
      may_act c ist pol thr =
        (if (\<exists>p. pol = Some p \<and> p \<noteq> [] \<and> \<not> truthy (dict_get p ''allow_action'' (PyBool True)))
         then \<lparr>decision = ''DENY'', reason = ''policy prohibits action''\<rparr>
         else \<lparr>decision = ''ALLOW'', reason = ''all thresholds satisfied''\<rparr>))"
  by (cases pol) (simp_all add: may_act_def)

theorem may_act_invariants_absolute_witness:
  "dict_get [(''status'', PyStr ''VIOLATED'')] ''status'' PyNone \<noteq> PyStr ''CLEAN''
   \<and> may_act 1.0 [(''status'', PyStr ''VIOLATED'')] (Some [(''allow_action'', PyBool True)]) 0.75
       = \<lparr>decision = ''DENY'', reason = ''invariants not clean''\<rparr>
   \<and> dict_get [(''status'', PyStr ''CLEAN'')] ''status'' PyNone = PyStr ''CLEAN''
   \<and> (0.5::real) < 0.75
   \<and> may_act 0.5 [(''status'', PyStr ''CLEAN'')] (Some [(''allow_action'', PyBool False)]) 0.75
       = \<lparr>decision = ''DENY'', reason = ''confidence below threshold''\<rparr>
   \<and> \<not> (0.9::real) < 0.75
   \<and> may_act 0.9 [(''status'', PyStr ''CLEAN'')] (Some [(''allow_action'', PyBool False)]) 0.75
       = \<lparr>decision = ''DENY'', reason = ''policy prohibits action''\<rparr>"
  using may_act_invariants_absolute
          [of "[(''status'', PyStr ''VIOLATED'')]" "1.0" "Some [(''allow_action'', PyBool True)]" "0.75"]
        may_act_invariants_absolute
          [of "[(''status'', PyStr ''CLEAN'')]" "0.5" "Some [(''allow_action'', PyBool False)]" "0.75"]
        may_act_invariants_absolute
          [of "[(''status'', PyStr ''CLEAN'')]" "0.9" "Some [(''allow_action'', PyBool False)]" "0.75"]
  by (simp add: dict_get_def)

section \<open>Rounding is monotone\<close>

lemma round_half_even_mono: "x \<le> y \<Longrightarrow> round_half_even x \<le> round_half_even y"
proof -
  assume xy: "x \<le> y"
  have fl: "\<lfloor>x\<rfloor> \<le> \<lfloor>y\<rfloor>" using xy by (rule floor_mono)
  have up: "round_half_even x \<le> \<lfloor>x\<rfloor> + 1" by (simp add: round_half_even_def Let_def)
  have lo: "\<lfloor>y\<rfloor> \<le> round_half_even y" by (simp add: round_half_even_def Let_def)
  show ?thesis
  proof (cases "\<lfloor>x\<rfloor> = \<lfloor>y\<rfloor>")
    case True
    then show ?thesis using xy by (auto simp: round_half_even_def Let_def)
  next
    case False
    then have "\<lfloor>x\<rfloor> + 1 \<le> \<lfloor>y\<rfloor>" using fl by linarith
    then show ?thesis using up lo by linarith
  qed
qed

lemma two_powi_Suc: "(2::real) powi (n + 1) = 2 powi n * 2"
  by (simp add: power_int_add)

lemma two_powi_pred: "(2::real) powi (n - 1) = 2 powi n / 2"
  by (simp add: power_int_diff)

lemma flog2_bounds:
  "0 < x \<Longrightarrow> 2 powi flog2 x \<le> x \<and> x < 2 powi (flog2 x + 1)"
proof (induction x rule: flog2.induct)
  case (1 x)
  show ?case
  proof (cases "2 \<le> x")
    case True
    then have e: "flog2 x = flog2 (x / 2) + 1"
      using 1(3) by (subst flog2.simps) simp
    have "2 powi flog2 (x / 2) \<le> x / 2 \<and> x / 2 < 2 powi (flog2 (x / 2) + 1)"
      using 1(1) [OF _ True] 1(3) by simp
    then show ?thesis
      unfolding e two_powi_Suc by linarith
  next
    case False
    show ?thesis
    proof (cases "x < 1")
      case True
      then have e: "flog2 x = flog2 (x * 2) - 1"
        using 1(3) False by (subst flog2.simps) simp
      have "2 powi flog2 (x * 2) \<le> x * 2 \<and> x * 2 < 2 powi (flog2 (x * 2) + 1)"
        using 1(2) [OF _ False True] 1(3) by simp
      then have "2 powi flog2 (x * 2) / 2 \<le> x \<and> x < 2 powi flog2 (x * 2)"
        unfolding two_powi_Suc by linarith
      then show ?thesis
        unfolding e by (simp add: two_powi_pred)
    next
      case b: False
      then have e: "flog2 x = 0"
        using 1(3) False by (subst flog2.simps) simp
      show ?thesis using b False unfolding e by simp
    qed
  qed
qed

lemma two_powi_less_imp: "(2::real) powi a < 2 powi b \<Longrightarrow> a < b"
proof (rule ccontr)
  assume l: "(2::real) powi a < 2 powi b" and "\<not> a < b"
  then have "b \<le> a" by simp
  then have "(2::real) powi b \<le> 2 powi a" by (rule power_int_increasing) simp
  with l show False by simp
qed

lemma flog2_mono: "0 < x \<Longrightarrow> x \<le> y \<Longrightarrow> flog2 x \<le> flog2 y"
proof -
  assume x: "0 < x" and xy: "x \<le> y"
  then have y: "0 < y" by simp
  have "2 powi flog2 x \<le> x" using flog2_bounds [OF x] by simp
  also have "x \<le> y" by fact
  also have "y < 2 powi (flog2 y + 1)" using flog2_bounds [OF y] by simp
  finally have "flog2 x < flog2 y + 1" by (rule two_powi_less_imp)
  then show ?thesis by simp
qed

lemma round_half_even_of_int: "round_half_even (of_int n) = n"
  by (simp add: round_half_even_def)

lemma quantum_mono: "0 < x \<Longrightarrow> x \<le> y \<Longrightarrow> quantum x \<le> quantum y"
  using flog2_mono [of x y] by (simp add: quantum_def)

lemma quantum_ge: "flog2 x - 52 \<le> quantum x"
  by (simp add: quantum_def)

lemma two_powi_plus: "(2::real) powi (n + int k) = 2 powi n * 2 ^ k"
  by (simp add: power_int_add)

lemma round_magnitude_upper:
  assumes x: "0 < x"
  shows "round_magnitude x \<le> 2 powi (quantum x + 53)"
proof -
  let ?q = "quantum x"
  have p: "(2::real) powi (?q + 53) = 2 powi ?q * 2 ^ 53"
    using two_powi_plus [of ?q 53] by simp
  have "x \<le> 2 powi (flog2 x + 1)" using flog2_bounds [OF x] by simp
  also have "\<dots> \<le> 2 powi (?q + 53)"
    using quantum_ge [of x] by (intro power_int_increasing) simp_all
  finally have "x / 2 powi ?q \<le> 2 powi (?q + 53) / 2 powi ?q"
    by (simp add: divide_right_mono)
  also have "\<dots> = of_int (2 ^ 53)" by (simp add: p)
  finally have "round_half_even (x / 2 powi ?q) \<le> round_half_even (of_int (2 ^ 53))"
    by (rule round_half_even_mono)
  then have "round_half_even (x / 2 powi ?q) \<le> 2 ^ 53"
    by (simp only: round_half_even_of_int)
  then have "real_of_int (round_half_even (x / 2 powi ?q)) \<le> real_of_int (2 ^ 53)"
    by (simp only: of_int_le_iff)
  then have "real_of_int (round_half_even (x / 2 powi ?q)) * 2 powi ?q
               \<le> real_of_int (2 ^ 53) * 2 powi ?q"
    by (intro mult_right_mono) simp_all
  then show ?thesis by (simp add: round_magnitude_def p mult.commute)
qed

lemma round_magnitude_lower:
  assumes x: "0 < x" and n: "- 1022 \<le> flog2 x"
  shows "2 powi flog2 x \<le> round_magnitude x"
proof -
  let ?q = "quantum x"
  have q: "flog2 x = ?q + 52" using n by (simp add: quantum_def)
  have p: "(2::real) powi (?q + 52) = 2 powi ?q * 2 ^ 52"
    using two_powi_plus [of ?q 52] by simp
  have "real_of_int (2 ^ 52) = 2 powi (?q + 52) / 2 powi ?q"
    by (simp add: p)
  also have "\<dots> \<le> x / 2 powi ?q"
    using flog2_bounds [OF x] q by (simp add: divide_right_mono)
  finally have "round_half_even (of_int (2 ^ 52)) \<le> round_half_even (x / 2 powi ?q)"
    by (rule round_half_even_mono)
  then have "2 ^ 52 \<le> round_half_even (x / 2 powi ?q)"
    by (simp only: round_half_even_of_int)
  then have "real_of_int (2 ^ 52) \<le> real_of_int (round_half_even (x / 2 powi ?q))"
    by (simp only: of_int_le_iff)
  then have "real_of_int (2 ^ 52) * 2 powi ?q
               \<le> real_of_int (round_half_even (x / 2 powi ?q)) * 2 powi ?q"
    by (intro mult_right_mono) simp_all
  moreover have "(2::real) powi flog2 x = real_of_int (2 ^ 52) * 2 powi ?q"
    using q p by (simp add: mult.commute)
  ultimately show ?thesis by (simp add: round_magnitude_def)
qed

lemma round_magnitude_mono:
  assumes x: "0 < x" and xy: "x \<le> y"
  shows "round_magnitude x \<le> round_magnitude y"
proof (cases "quantum x = quantum y")
  case True
  have "x / 2 powi quantum y \<le> y / 2 powi quantum y"
    using xy by (simp add: divide_right_mono)
  then have "round_half_even (x / 2 powi quantum y) \<le> round_half_even (y / 2 powi quantum y)"
    by (rule round_half_even_mono)
  then show ?thesis
    unfolding round_magnitude_def True
    by (intro mult_right_mono) simp_all
next
  case False
  have y: "0 < y" using x xy by simp
  have "quantum x < quantum y" using False quantum_mono [OF x xy] by simp
  then have lt: "quantum x + 53 \<le> flog2 y" and n: "- 1022 \<le> flog2 y"
    by (auto simp: quantum_def max_def split: if_splits)
  have "round_magnitude x \<le> 2 powi (quantum x + 53)" by (rule round_magnitude_upper [OF x])
  also have "\<dots> \<le> 2 powi flog2 y" using lt by (intro power_int_increasing) simp_all
  also have "\<dots> \<le> round_magnitude y" by (rule round_magnitude_lower [OF y n])
  finally show ?thesis .
qed

lemma round_magnitude_nonneg: "0 < x \<Longrightarrow> 0 \<le> round_magnitude x"
proof -
  assume x: "0 < x"
  have "(0::real) \<le> x / 2 powi quantum x" using x by simp
  then have "round_half_even (of_int 0) \<le> round_half_even (x / 2 powi quantum x)"
    by (intro round_half_even_mono) simp
  then have "0 \<le> round_half_even (x / 2 powi quantum x)"
    by (simp only: round_half_even_of_int)
  then show ?thesis by (simp add: round_magnitude_def)
qed

lemma to_double_mono: "x \<le> y \<Longrightarrow> to_double x \<le> to_double y"
proof -
  assume xy: "x \<le> y"
  consider "x < 0" "y < 0" | "x < 0" "0 \<le> y" | "0 \<le> x" by linarith
  then show ?thesis
  proof cases
    case 1
    then have "round_magnitude (- y) \<le> round_magnitude (- x)"
      using xy by (intro round_magnitude_mono) simp_all
    then show ?thesis using 1 by (simp add: to_double_def)
  next
    case 2
    have a: "0 \<le> round_magnitude (- x)" using 2 by (intro round_magnitude_nonneg) simp
    have b: "0 \<le> to_double y"
      using 2 round_magnitude_nonneg [of y] by (simp add: to_double_def)
    show ?thesis using 2 a b by (simp add: to_double_def)
  next
    case 3
    show ?thesis
    proof (cases "x = 0")
      case True
      then show ?thesis
        using xy round_magnitude_nonneg [of y] by (simp add: to_double_def)
    next
      case False
      then have x: "0 < x" using 3 by simp
      then show ?thesis
        using xy round_magnitude_mono [OF x xy] by (simp add: to_double_def)
    qed
  qed
qed

lemma to_double_0: "to_double 0 = 0"
  by (simp add: to_double_def)

lemma py_round_mono: "x \<le> y \<Longrightarrow> py_round x n \<le> py_round y n"
  unfolding py_round_def
  by (intro to_double_mono divide_right_mono) (auto intro!: round_half_even_mono mult_right_mono)

lemma py_round_0: "py_round 0 n = 0"
  by (simp add: py_round_def round_half_even_def to_double_0)

lemma fsub_mono: "a \<le> b \<Longrightarrow> d \<le> c \<Longrightarrow> fsub a c \<le> fsub b d"
  unfolding fsub_def by (intro to_double_mono) simp

lemma fmul_mono_left: "a \<le> b \<Longrightarrow> 0 \<le> c \<Longrightarrow> fmul a c \<le> fmul b c"
  unfolding fmul_def by (intro to_double_mono mult_right_mono)

lemma to_double_nonneg: "0 \<le> x \<Longrightarrow> 0 \<le> to_double x"
  using to_double_mono [of 0 x] by (simp add: to_double_0)

text \<open>Evaluation of the arithmetic on numerals.\<close>

lemmas float_eval = to_double_def round_magnitude_def quantum_def flog2.simps
  round_half_even_def fadd_def fsub_def fmul_def fdiv_def py_round_def

section \<open>Claims about the confidence score\<close>

subsection \<open>The closed form of the score\<close>

lemma compute_confidence_closed:
  assumes "snapshot_typed gs"
  shows "compute_confidence gs ist =
           Inr (confidence_formula (snapshot_entropy gs) (snapshot_stabilized gs) (status_clean ist))"
proof -
  have clean: "(case ist of None \<Rightarrow> True
                 | Some i \<Rightarrow> if i = [] then True
                             else dict_get i ''status'' (PyStr ''CLEAN'') = PyStr ''CLEAN'')
               = status_clean ist"
    by (auto simp: status_clean_def dict_get_def split: option.splits)
  show ?thesis
  proof (cases gs)
    case None
    then show ?thesis
      unfolding compute_confidence_def clean
      by (simp add: confidence_formula_def snapshot_entropy_def snapshot_stabilized_def
          clamp01_def py_round_0 min.commute)
  next
    case (Some g)
    show ?thesis
    proof (cases "g = []")
      case True
      with Some show ?thesis
        unfolding compute_confidence_def clean
        by (simp add: confidence_formula_def snapshot_entropy_def snapshot_stabilized_def
            clamp01_def py_round_0 min.commute)
    next
      case False
      have ty: "(case map_of g ''mean_entropy'' of None \<Rightarrow> True | Some v \<Rightarrow> as_number v \<noteq> None)"
        and tc: "(case map_of g ''active_constraints'' of
                None \<Rightarrow> True | Some (PyList xs) \<Rightarrow> True | Some v \<Rightarrow> False)"
        using assms Some by (simp_all add: snapshot_typed_def)
      have st: "py_in_str ''stabilize'' (dict_get g ''active_constraints'' (PyList []))
                  = Inr (snapshot_stabilized gs)"
        using tc Some
        by (auto simp: dict_get_def snapshot_stabilized_def split: option.splits pyval.splits)
      have en: "as_number (dict_get g ''mean_entropy'' (PyNum 0.0)) = Some (snapshot_entropy gs)"
        using ty Some
        by (auto simp: dict_get_def snapshot_entropy_def split: option.splits)
      show ?thesis
        unfolding compute_confidence_def clean using Some False st en
        by (simp add: confidence_formula_def clamp01_def py_round_0 min.commute Let_def)
    qed
  qed
qed

lemma clamp01_mono: "x \<le> y \<Longrightarrow> clamp01 x \<le> clamp01 y"
  by (simp add: clamp01_def min_def max_def)

lemma to_double_literal_nonneg: "0 \<le> to_double 0.4"
  by (rule to_double_nonneg) simp

lemma entropy_penalty_antitone:
  assumes "e1 \<le> e2"
  shows "fsub 1.0 (fmul (to_double (min e2 1.0)) (to_double 0.4))
           \<le> fsub 1.0 (fmul (to_double (min e1 1.0)) (to_double 0.4))"
proof -
  have "min e1 1.0 \<le> min e2 1.0" using assms by (simp add: min_def)
  then have "to_double (min e1 1.0) \<le> to_double (min e2 1.0)" by (rule to_double_mono)
  then have "fmul (to_double (min e1 1.0)) (to_double 0.4) \<le> fmul (to_double (min e2 1.0)) (to_double 0.4)"
    using to_double_literal_nonneg by (rule fmul_mono_left)
  then show ?thesis by (intro fsub_mono) simp_all
qed

lemma confidence_formula_antitone:
  assumes "e1 \<le> e2"
  shows "confidence_formula e2 st cl \<le> confidence_formula e1 st cl"
proof (cases cl)
  case False
  then show ?thesis by (simp add: confidence_formula_def)
next
  case True
  note p = entropy_penalty_antitone [OF assms]
  show ?thesis
  proof (cases st)
    case True
    have "fsub (fsub 1.0 (fmul (to_double (min e2 1.0)) (to_double 0.4))) (to_double 0.2)
            \<le> fsub (fsub 1.0 (fmul (to_double (min e1 1.0)) (to_double 0.4))) (to_double 0.2)"
      by (rule fsub_mono [OF p order_refl])
    then show ?thesis
      using True \<open>cl\<close> by (simp add: confidence_formula_def clamp01_mono py_round_mono)
  next
    case False
    then show ?thesis
      using p \<open>cl\<close> by (simp add: confidence_formula_def clamp01_mono py_round_mono)
  qed
qed

lemma compute_confidence_defaults: "compute_confidence None None = Inr 1.0"
proof -
  have "snapshot_typed (None)"
    by (simp add: snapshot_typed_def)
  from compute_confidence_closed [OF this, of None]
  have "compute_confidence (None) None
          = Inr (confidence_formula (0) False True)"
    by (simp add: snapshot_entropy_def snapshot_stabilized_def status_clean_def)
  moreover have "confidence_formula (0) False True = 1"
    by (simp add: confidence_formula_def clamp01_def float_eval)
  ultimately show ?thesis by simp
qed

lemma compute_confidence_example:
  "compute_confidence (Some [(''mean_entropy'', PyNum (to_double 0.00375))]) None
     = Inr (to_double 0.999)"
proof -
  have "snapshot_typed (Some [(''mean_entropy'', PyNum (to_double 0.00375))])"
    by (simp add: snapshot_typed_def)
  from compute_confidence_closed [OF this, of None]
  have "compute_confidence (Some [(''mean_entropy'', PyNum (to_double 0.00375))]) None
          = Inr (confidence_formula (to_double 0.00375) False True)"
    by (simp add: snapshot_entropy_def snapshot_stabilized_def status_clean_def)
  moreover have "confidence_formula (to_double 0.00375) False True = to_double 0.999"
    by (simp add: confidence_formula_def clamp01_def float_eval)
  ultimately show ?thesis by simp
qed

lemma compute_confidence_example_stabilized:
  "compute_confidence (Some [(''mean_entropy'', PyNum (to_double 0.3333)),
                             (''active_constraints'', PyList [PyStr ''stabilize''])]) None
     = Inr (to_double 0.667)"
proof -
  have "snapshot_typed (Some [(''mean_entropy'', PyNum (to_double 0.3333)),
                             (''active_constraints'', PyList [PyStr ''stabilize''])])"
    by (simp add: snapshot_typed_def)
  from compute_confidence_closed [OF this, of None]
  have "compute_confidence (Some [(''mean_entropy'', PyNum (to_double 0.3333)),
                             (''active_constraints'', PyList [PyStr ''stabilize''])]) None
          = Inr (confidence_formula (to_double 0.3333) True True)"
    by (simp add: snapshot_entropy_def snapshot_stabilized_def status_clean_def)
  moreover have "confidence_formula (to_double 0.3333) True True = to_double 0.667"
    by (simp add: confidence_formula_def clamp01_def float_eval)
  ultimately show ?thesis by simp
qed

text \<open>
  C5.  On every typed snapshot and every invariant status, \<open>compute_confidence\<close> returns a
  number (it never raises), namely
  \<open>round(clamp01(1.0 - min(entropy, 1.0) * 0.4 - (0.2 if stabilize is active)), 3)\<close> computed
  in float arithmetic, where entropy is the snapshot's \<open>mean_entropy\<close> entry (the float
  written 0.999 is \<open>to_double 0.999\<close>); an invariant
  status that is not clean forces the result to 0.0.  With no input the defaults are entropy
  0, not stabilized, invariants clean, and the score is 1.0.
\<close>

theorem compute_confidence_formula:
  "(snapshot_typed gs \<longrightarrow>
      compute_confidence gs ist =
        Inr (if status_clean ist
             then py_round
                    (clamp01
                       (if snapshot_stabilized gs
                        then fsub (fsub 1.0 (fmul (to_double (min (snapshot_entropy gs) 1.0))
                                                  (to_double 0.4)))
                               (to_double 0.2)
                        else fsub 1.0 (fmul (to_double (min (snapshot_entropy gs) 1.0))
                                         (to_double 0.4)))) 3
             else 0.0))
   \<and> snapshot_typed None \<and> snapshot_entropy None = 0 \<and> \<not> snapshot_stabilized None
   \<and> status_clean None \<and> compute_confidence None None = Inr 1.0"
  using compute_confidence_closed [of gs ist] compute_confidence_defaults
  by (simp add: confidence_formula_def snapshot_typed_def snapshot_entropy_def
      snapshot_stabilized_def status_clean_def)

theorem compute_confidence_formula_witness:
  "snapshot_typed (Some [(''mean_entropy'', PyNum (to_double 0.00375))])
   \<and> compute_confidence (Some [(''mean_entropy'', PyNum (to_double 0.00375))]) None
       = Inr (to_double 0.999)
   \<and> snapshot_typed (Some [(''mean_entropy'', PyNum (to_double 0.3333)),
                           (''active_constraints'', PyList [PyStr ''stabilize''])])
   \<and> compute_confidence (Some [(''mean_entropy'', PyNum (to_double 0.3333)),
                                (''active_constraints'', PyList [PyStr ''stabilize''])]) None
       = Inr (to_double 0.667)
   \<and> compute_confidence (Some [(''mean_entropy'', PyNum (to_double 0.3333)),
                                (''active_constraints'', PyList [PyStr ''stabilize''])])
                          (Some [(''status'', PyStr ''VIOLATED'')])
       = Inr 0"
proof -
  have t: "snapshot_typed (Some [(''mean_entropy'', PyNum (to_double 0.00375))])"
    "snapshot_typed (Some [(''mean_entropy'', PyNum (to_double 0.3333)),
                           (''active_constraints'', PyList [PyStr ''stabilize''])])"
    by (simp_all add: snapshot_typed_def)
  have c: "\<not> status_clean (Some [(''status'', PyStr ''VIOLATED'')])"
    by (simp add: status_clean_def)
  from compute_confidence_formula
          [of "Some [(''mean_entropy'', PyNum (to_double 0.3333)),
                     (''active_constraints'', PyList [PyStr ''stabilize''])]"
              "Some [(''status'', PyStr ''VIOLATED'')]"] t c
  have z: "compute_confidence (Some [(''mean_entropy'', PyNum (to_double 0.3333)),
                                (''active_constraints'', PyList [PyStr ''stabilize''])])
                          (Some [(''status'', PyStr ''VIOLATED'')]) = Inr 0"
    by simp
  show ?thesis
    using t z compute_confidence_example compute_confidence_example_stabilized by simp
qed

text \<open>
  C6.  With the stabilize flag and the invariant status held fixed, a larger entropy input
  never gives a larger confidence; and whenever the invariant status is not clean the
  confidence is exactly 0.0, whatever the (typed) snapshot.
\<close>

theorem compute_confidence_nonincreasing:
  assumes "snapshot_typed g1" and "snapshot_typed g2"
    and "snapshot_stabilized g1 = snapshot_stabilized g2"
    and "snapshot_entropy g1 \<le> snapshot_entropy g2"
  shows "(\<exists>r1 r2. compute_confidence g1 ist = Inr r1 \<and> compute_confidence g2 ist = Inr r2
                  \<and> r2 \<le> r1)
         \<and> (\<not> status_clean ist \<longrightarrow> compute_confidence g1 ist = Inr 0.0)"
  using assms compute_confidence_closed [of g1 ist] compute_confidence_closed [of g2 ist]
    confidence_formula_antitone [of "snapshot_entropy g1" "snapshot_entropy g2"
      "snapshot_stabilized g2" "status_clean ist"]
  by (simp add: confidence_formula_def)

lemma compute_confidence_tenth:
  "compute_confidence (Some [(''mean_entropy'', PyNum (to_double 0.1))]) None
     = Inr (to_double 0.96)"
proof -
  have "snapshot_typed (Some [(''mean_entropy'', PyNum (to_double 0.1))])"
    by (simp add: snapshot_typed_def)
  from compute_confidence_closed [OF this, of None]
  have "compute_confidence (Some [(''mean_entropy'', PyNum (to_double 0.1))]) None
          = Inr (confidence_formula (to_double 0.1) False True)"
    by (simp add: snapshot_entropy_def snapshot_stabilized_def status_clean_def)
  moreover have "confidence_formula (to_double 0.1) False True = to_double 0.96"
    by (simp add: confidence_formula_def clamp01_def float_eval)
  ultimately show ?thesis by simp
qed

lemma compute_confidence_half:
  "compute_confidence (Some [(''mean_entropy'', PyNum (to_double 0.5))]) None
     = Inr (to_double 0.8)"
proof -
  have "snapshot_typed (Some [(''mean_entropy'', PyNum (to_double 0.5))])"
    by (simp add: snapshot_typed_def)
  from compute_confidence_closed [OF this, of None]
  have "compute_confidence (Some [(''mean_entropy'', PyNum (to_double 0.5))]) None
          = Inr (confidence_formula (to_double 0.5) False True)"
    by (simp add: snapshot_entropy_def snapshot_stabilized_def status_clean_def)
  moreover have "confidence_formula (to_double 0.5) False True = to_double 0.8"
    by (simp add: confidence_formula_def clamp01_def float_eval)
  ultimately show ?thesis by simp
qed

lemma to_double_tenth_le_half: "to_double 0.1 \<le> to_double 0.5"
  by (rule to_double_mono) simp

theorem compute_confidence_nonincreasing_witness:
  "snapshot_typed (Some [(''mean_entropy'', PyNum (to_double 0.1))])
   \<and> snapshot_typed (Some [(''mean_entropy'', PyNum (to_double 0.5))])
   \<and> snapshot_stabilized (Some [(''mean_entropy'', PyNum (to_double 0.1))])
       = snapshot_stabilized (Some [(''mean_entropy'', PyNum (to_double 0.5))])
   \<and> snapshot_entropy (Some [(''mean_entropy'', PyNum (to_double 0.1))])
       \<le> snapshot_entropy (Some [(''mean_entropy'', PyNum (to_double 0.5))])
   \<and> compute_confidence (Some [(''mean_entropy'', PyNum (to_double 0.1))]) None
       = Inr (to_double 0.96)
   \<and> compute_confidence (Some [(''mean_entropy'', PyNum (to_double 0.5))]) None
       = Inr (to_double 0.8)
   \<and> to_double 0.8 \<le> to_double 0.96
   \<and> \<not> status_clean (Some [(''status'', PyStr ''VIOLATED'')])
   \<and> compute_confidence (Some [(''mean_entropy'', PyNum (to_double 0.1))])
        (Some [(''status'', PyStr ''VIOLATED'')]) = Inr 0"
proof -
  have t1: "snapshot_typed (Some [(''mean_entropy'', PyNum (to_double 0.1))])"
    and t2: "snapshot_typed (Some [(''mean_entropy'', PyNum (to_double 0.5))])"
    by (simp_all add: snapshot_typed_def)
  have st: "snapshot_stabilized (Some [(''mean_entropy'', PyNum (to_double 0.1))])
              = snapshot_stabilized (Some [(''mean_entropy'', PyNum (to_double 0.5))])"
    by (simp add: snapshot_stabilized_def)
  have le: "snapshot_entropy (Some [(''mean_entropy'', PyNum (to_double 0.1))])
              \<le> snapshot_entropy (Some [(''mean_entropy'', PyNum (to_double 0.5))])"
    using to_double_tenth_le_half by (simp add: snapshot_entropy_def)
  have nc: "\<not> status_clean (Some [(''status'', PyStr ''VIOLATED'')])"
    by (simp add: status_clean_def)
  from compute_confidence_nonincreasing [OF t1 t2 st le, of None]
  obtain r1 r2 where r: "compute_confidence (Some [(''mean_entropy'', PyNum (to_double 0.1))]) None = Inr r1"
    "compute_confidence (Some [(''mean_entropy'', PyNum (to_double 0.5))]) None = Inr r2"
    "r2 \<le> r1"
    by blast
  have o: "to_double 0.8 \<le> to_double 0.96"
    using r unfolding compute_confidence_tenth compute_confidence_half by simp
  from compute_confidence_nonincreasing
         [OF t1 t2 st le, of "Some [(''status'', PyStr ''VIOLATED'')]"] nc
  have z: "compute_confidence (Some [(''mean_entropy'', PyNum (to_double 0.1))])
             (Some [(''status'', PyStr ''VIOLATED'')]) = Inr 0"
    by simp
  show ?thesis
    using t1 t2 st le nc o z compute_confidence_tenth compute_confidence_half by simp
qed
section \<open>Claims about the segmentation decision\<close>

text \<open>
  The state of the specification's example has 0.5 among the last three coherence values,
  which is not below 0.45, and its slope -0.1 is not below -0.15: neither trigger fires.
\<close>

theorem should_segment_example_counterexample:
  "\<not> should_segment
        (ILState_default\<lparr>K_hist := [0.5, 0.4, 0.3], R_t := 0.9, K_t := 0.3,
                          Kt_slope_2 := (0.3 - 0.5) / 2, cooldown_active := False\<rparr>)"
  by (simp add: should_segment_def acceleration_trigger_def saturation_trigger_def
      ILState_default_def last_n_def)

text \<open>
  C3, as amended.  With cooldown inactive, \<open>should_segment\<close> returns true through the
  saturation trigger whenever \<open>R_t > 0.80\<close>, \<open>K_t < 0.45\<close>, the history has at least three
  entries and the last three are all below 0.45.  For the history \<open>[0.5, 0.4, 0.3]\<close> with
  the slope -0.1 that the update rule computes for it, the saturation trigger and the
  acceleration trigger are both false and \<open>should_segment\<close> returns false.
\<close>

theorem should_segment_saturation:
  "(\<not> cooldown_active s \<and> R_t s > 0.80 \<and> K_t s < 0.45 \<and> length (K_hist s) \<ge> 3
      \<and> (\<forall>k \<in> set (last_n 3 (K_hist s)). k < 0.45)
     \<longrightarrow> saturation_trigger s \<and> should_segment s)
   \<and> (\<not> cooldown_active s \<and> K_hist s = [0.5, 0.4, 0.3] \<and> Kt_slope_2 s = - 0.1
     \<longrightarrow> \<not> saturation_trigger s \<and> \<not> acceleration_trigger s \<and> \<not> should_segment s)"
  by (simp add: should_segment_def acceleration_trigger_def saturation_trigger_def
      last_n_def list_all_iff)

theorem should_segment_saturation_witness:
  "\<not> cooldown_active (ILState_default\<lparr>K_hist := [0.44, 0.4, 0.3], R_t := 0.9, K_t := 0.3,
                                       Kt_slope_2 := (0.3 - 0.44) / 2\<rparr>)
   \<and> should_segment (ILState_default\<lparr>K_hist := [0.44, 0.4, 0.3], R_t := 0.9, K_t := 0.3,
                                       Kt_slope_2 := (0.3 - 0.44) / 2\<rparr>)
   \<and> \<not> saturation_trigger (ILState_default\<lparr>K_hist := [0.5, 0.4, 0.3], R_t := 0.9, K_t := 0.3,
                                       Kt_slope_2 := - 0.1\<rparr>)"
  using should_segment_saturation
          [of "ILState_default\<lparr>K_hist := [0.44, 0.4, 0.3], R_t := 0.9, K_t := 0.3,
                                Kt_slope_2 := (0.3 - 0.44) / 2\<rparr>"]
        should_segment_saturation
          [of "ILState_default\<lparr>K_hist := [0.5, 0.4, 0.3], R_t := 0.9, K_t := 0.3,
                                Kt_slope_2 := - 0.1\<rparr>"]
  by (simp add: ILState_default_def last_n_def)

text \<open>
  C4.  During cooldown \<open>should_segment\<close> is true exactly when the base trigger
  (acceleration or saturation) fires and in addition \<open>Kt_slope_2 < -0.30\<close>.  In particular
  the state with history \<open>[0.5, 0.4, 0.3]\<close>, \<open>R_t = 0.9\<close>, \<open>K_t = 0.3\<close>, cooldown active and
  slope -0.20 gives false.
\<close>

theorem should_segment_cooldown_bar:
  "(cooldown_active s \<longrightarrow>
      should_segment s =
        ((acceleration_trigger s \<or> saturation_trigger s) \<and> Kt_slope_2 s < - 0.30))
   \<and> (cooldown_active s \<and> K_hist s = [0.5, 0.4, 0.3] \<and> R_t s = 0.9 \<and> K_t s = 0.3
        \<and> Kt_slope_2 s = - 0.20
      \<longrightarrow> \<not> should_segment s)"
  by (simp add: should_segment_def)

theorem should_segment_cooldown_bar_witness:
  "cooldown_active (ILState_default\<lparr>K_hist := [0.5, 0.4, 0.3], R_t := 0.9, K_t := 0.3,
                                     Kt_slope_2 := - 0.20, cooldown_active := True\<rparr>)
   \<and> \<not> should_segment (ILState_default\<lparr>K_hist := [0.5, 0.4, 0.3], R_t := 0.9, K_t := 0.3,
                                     Kt_slope_2 := - 0.20, cooldown_active := True\<rparr>)
   \<and> acceleration_trigger (ILState_default\<lparr>K_hist := [0.5, 0.4, 0.3], R_t := 0.9, K_t := 0.3,
                                     Kt_slope_2 := - 0.20, cooldown_active := True\<rparr>)
   \<and> cooldown_active (ILState_default\<lparr>K_hist := [0.9, 0.4, 0.2], R_t := 0.9, K_t := 0.2,
                                     Kt_slope_2 := - 0.35, cooldown_active := True\<rparr>)
   \<and> should_segment (ILState_default\<lparr>K_hist := [0.9, 0.4, 0.2], R_t := 0.9, K_t := 0.2,
                                     Kt_slope_2 := - 0.35, cooldown_active := True\<rparr>)"
  using should_segment_cooldown_bar
          [of "ILState_default\<lparr>K_hist := [0.5, 0.4, 0.3], R_t := 0.9, K_t := 0.3,
                                Kt_slope_2 := - 0.20, cooldown_active := True\<rparr>"]
        should_segment_cooldown_bar
          [of "ILState_default\<lparr>K_hist := [0.9, 0.4, 0.2], R_t := 0.9, K_t := 0.2,
                                Kt_slope_2 := - 0.35, cooldown_active := True\<rparr>"]
  by (simp add: ILState_default_def acceleration_trigger_def)

section \<open>Claims about the state update\<close>

subsection \<open>What each step of the update writes\<close>

lemma push_turn_simps:
  "turn_index (push_turn K R s) = turn_index s + 1"
  "K_hist (push_turn K R s) = last_n 6 (K_hist s @ [K])"
  "R_hist (push_turn K R s) = last_n 6 (R_hist s @ [R])"
  "K_t (push_turn K R s) = K_t s"
  "cooldown_active (push_turn K R s) = cooldown_active s"
  "cooldown_turns_left (push_turn K R s) = cooldown_turns_left s"
  "cooldown_exit_K (push_turn K R s) = cooldown_exit_K s"
  "cooldown_min_turns (push_turn K R s) = cooldown_min_turns s"
  "last_segment_turn (push_turn K R s) = last_segment_turn s"
  by (simp_all add: push_turn_def)

lemma set_slope_simps:
  "turn_index (set_slope s) = turn_index s"
  "K_hist (set_slope s) = K_hist s"
  "R_hist (set_slope s) = R_hist s"
  "cooldown_active (set_slope s) = cooldown_active s"
  "cooldown_turns_left (set_slope s) = cooldown_turns_left s"
  "cooldown_exit_K (set_slope s) = cooldown_exit_K s"
  "cooldown_min_turns (set_slope s) = cooldown_min_turns s"
  "last_segment_turn (set_slope s) = last_segment_turn s"
  by (simp_all add: set_slope_def)

lemma set_trace_hash_simps:
  "turn_index (set_trace_hash H fr s) = turn_index s"
  "K_hist (set_trace_hash H fr s) = K_hist s"
  "R_hist (set_trace_hash H fr s) = R_hist s"
  "K_t (set_trace_hash H fr s) = K_t s"
  "trace_hash (set_trace_hash H fr s) = trace_digest H fr (K_hist s) (R_hist s) (turn_index s)"
  "cooldown_active (set_trace_hash H fr s) = cooldown_active s"
  "cooldown_turns_left (set_trace_hash H fr s) = cooldown_turns_left s"
  "cooldown_exit_K (set_trace_hash H fr s) = cooldown_exit_K s"
  "cooldown_min_turns (set_trace_hash H fr s) = cooldown_min_turns s"
  "last_segment_turn (set_trace_hash H fr s) = last_segment_turn s"
  by (simp_all add: set_trace_hash_def)

lemma cooldown_step_simps:
  "turn_index (cooldown_step s) = turn_index s"
  "K_hist (cooldown_step s) = K_hist s"
  "R_hist (cooldown_step s) = R_hist s"
  "K_t (cooldown_step s) = K_t s"
  "trace_hash (cooldown_step s) = trace_hash s"
  "cooldown_exit_K (cooldown_step s) = cooldown_exit_K s"
  "cooldown_min_turns (cooldown_step s) = cooldown_min_turns s"
  "last_segment_turn (cooldown_step s) = last_segment_turn s"
  "cooldown_turns_left (cooldown_step s) =
     (if cooldown_active s then cooldown_turns_left s - 1 else cooldown_turns_left s)"
  "cooldown_active (cooldown_step s) =
     (cooldown_active s \<and>
      \<not> (turn_index s - last_segment_turn s \<ge> cooldown_min_turns s
         \<and> cooldown_turns_left s - 1 \<le> 0
         \<and> K_t s \<ge> cooldown_exit_K s))"
  by (simp_all add: cooldown_step_def Let_def)

lemma update_state_state:
  "fst (snd (update_state H fr lt s tx)) =
     cooldown_step (set_trace_hash H fr
       ((set_slope (push_turn (fst (estimate_coherence lt tx)) (estimate_recursion tx) s))
          \<lparr>K_t := fst (estimate_coherence lt tx), R_t := estimate_recursion tx\<rparr>))"
  by (simp add: update_state_def Let_def split: prod.splits)


lemma update_state_tokens:
  "snd (snd (update_state H fr lt s tx)) = snd (estimate_coherence lt tx)"
  by (simp add: update_state_def Let_def split: prod.splits)

lemmas stage_simps = push_turn_simps set_slope_simps set_trace_hash_simps cooldown_step_simps

lemma update_state_fields:
  assumes "s' = fst (snd (update_state H fr lt s tx))"
  shows "turn_index s' = turn_index s + 1"
    and "K_t s' = fst (estimate_coherence lt tx)"
    and "K_hist s' = last_n 6 (K_hist s @ [fst (estimate_coherence lt tx)])"
    and "R_hist s' = last_n 6 (R_hist s @ [estimate_recursion tx])"
    and "last_segment_turn s' = last_segment_turn s"
    and "cooldown_min_turns s' = cooldown_min_turns s"
    and "cooldown_exit_K s' = cooldown_exit_K s"
    and "cooldown_turns_left s' =
           (if cooldown_active s then cooldown_turns_left s - 1 else cooldown_turns_left s)"
    and "trace_hash s' = trace_digest H fr (K_hist s') (R_hist s') (turn_index s')"
    and "cooldown_active s' =
           (cooldown_active s \<and>
            \<not> (turn_index s + 1 - last_segment_turn s \<ge> cooldown_min_turns s
               \<and> cooldown_turns_left s - 1 \<le> 0
               \<and> fst (estimate_coherence lt tx) \<ge> cooldown_exit_K s))"
  unfolding assms update_state_state
  by (simp_all add: stage_simps)




section \<open>Claims about the coherence estimator\<close>

lemma strip_empty_iff: "strip tx = [] \<longleftrightarrow> (\<forall>c \<in> set tx. is_space c)"
proof
  assume "strip tx = []"
  then have "dropWhile is_space (rev (dropWhile is_space tx)) = []"
    by (simp add: strip_def)
  then have all: "\<forall>c \<in> set (dropWhile is_space tx). is_space c"
    by (simp add: dropWhile_eq_Nil_conv)
  have "dropWhile is_space tx = []"
  proof (rule ccontr)
    assume ne: "dropWhile is_space tx \<noteq> []"
    then have "\<not> is_space (hd (dropWhile is_space tx))" by (rule hd_dropWhile)
    moreover have "hd (dropWhile is_space tx) \<in> set (dropWhile is_space tx)"
      using ne by simp
    ultimately show False using all by blast
  qed
  then show "\<forall>c \<in> set tx. is_space c" by (simp add: dropWhile_eq_Nil_conv)
next
  assume "\<forall>c \<in> set tx. is_space c"
  then show "strip tx = []"
    by (auto simp: strip_def dest: set_dropWhileD)
qed

lemma estimate_coherence_early_return:
  "strip tx = [] \<Longrightarrow> estimate_coherence lt tx = (0, lt)"
  by (simp add: estimate_coherence_def)

lemma estimate_coherence_stores_tokens:
  "strip tx \<noteq> [] \<Longrightarrow> snd (estimate_coherence lt tx) = set (split (lower tx))"
  by (simp add: estimate_coherence_def Let_def)

text \<open>
  C10.  On a text that is empty or all whitespace \<open>estimate_coherence\<close> returns 0.0 and
  leaves the carried token set as it was.  So a blank call between two calls is invisible
  to the second: its overlap penalty is computed against the tokens of the last text that
  was not blank, not against an empty set.
\<close>

theorem estimate_coherence_blank:
  assumes "\<forall>c \<in> set blank. is_space c"
  shows "estimate_coherence lt blank = (0.0, lt)
         \<and> estimate_coherence (snd (estimate_coherence lt blank)) tx = estimate_coherence lt tx
         \<and> (strip prev \<noteq> [] \<longrightarrow>
              estimate_coherence
                (snd (estimate_coherence (snd (estimate_coherence lt prev)) blank)) tx
              = estimate_coherence (set (split (lower prev))) tx)"
proof -
  have b: "strip blank = []" using assms by (simp add: strip_empty_iff)
  show ?thesis
    by (simp add: estimate_coherence_early_return [OF b] estimate_coherence_stores_tokens)
qed

lemma estimate_coherence_alpha:
  "estimate_coherence {} ''alpha beta.'' = (0.6, {''alpha'', ''beta.''})"
  by code_simp

lemma estimate_coherence_alpha_again:
  "estimate_coherence {''alpha'', ''beta.''} ''alpha beta.'' = (0.585, {''alpha'', ''beta.''})"
  by code_simp

lemma strip_alpha: "strip ''alpha beta.'' \<noteq> []"
  by code_simp

lemma tokens_alpha: "set (split (lower ''alpha beta.'')) = {''alpha'', ''beta.''}"
  by code_simp

theorem estimate_coherence_blank_witness:
  "is_space CHR '' ''
   \<and> estimate_coherence {''alpha'', ''beta.''} '' '' = (0, {''alpha'', ''beta.''})
   \<and> strip ''alpha beta.'' \<noteq> []
   \<and> estimate_coherence
        (snd (estimate_coherence (snd (estimate_coherence {} ''alpha beta.'')) '' ''))
        ''alpha beta.'' = (0.585, {''alpha'', ''beta.''})
   \<and> fst (estimate_coherence {} ''alpha beta.'') = 0.6"
proof -
  have sp: "\<forall>c \<in> set '' ''. is_space c" by (simp add: is_space_def)
  from estimate_coherence_blank
         [OF sp, of "{''alpha'', ''beta.''}" "''alpha beta.''" "''alpha beta.''"]
       estimate_coherence_blank [OF sp, of "{}" "''alpha beta.''" "''alpha beta.''"]
  show ?thesis
    using sp estimate_coherence_alpha estimate_coherence_alpha_again strip_alpha tokens_alpha
    by simp
qed

section \<open>Claims about the trace digest\<close>

lemma trace_digest_length: "length (trace_digest H fr K R t) \<le> 16"
  by (simp add: trace_digest_def)

lemma finite_short_strings: "finite {xs :: string. length xs \<le> n}"
  using finite_lists_length_le [of "UNIV :: char set" n] by simp

lemma trace_digest_not_injective:
  "\<exists>t1 t2. t1 \<noteq> t2 \<and> trace_digest H fr K R t1 = trace_digest H fr K R (t2 :: int)"
proof (rule ccontr)
  assume "\<not> ?thesis"
  then have inj: "inj (\<lambda>t. trace_digest H fr K R t)"
    by (auto simp: inj_on_def)
  have "range (\<lambda>t. trace_digest H fr K R t) \<subseteq> {xs. length xs \<le> 16}"
    by (auto simp: trace_digest_length)
  then have "finite (range (\<lambda>t. trace_digest H fr K R t))"
    using finite_short_strings by (rule finite_subset)
  then have "finite (UNIV :: int set)"
    using inj by (rule finite_imageD)
  then show False by (simp add: infinite_UNIV_int)
qed

text \<open>
  The digest keeps 16 characters, so it takes finitely many values, while the turn counter
  alone takes infinitely many: whatever the hash function and the float formatting, two
  updates that differ only in the resulting turn index agree on \<open>trace_hash\<close> for some pair
  of indices.
\<close>

theorem trace_hash_collision:
  "\<forall>H fr lt s tx. \<exists>t1 t2.
      turn_index (fst (snd (update_state H fr lt (s\<lparr>turn_index := t1\<rparr>) tx)))
        \<noteq> turn_index (fst (snd (update_state H fr lt (s\<lparr>turn_index := t2\<rparr>) tx)))
      \<and> trace_hash (fst (snd (update_state H fr lt (s\<lparr>turn_index := t1\<rparr>) tx)))
        = trace_hash (fst (snd (update_state H fr lt (s\<lparr>turn_index := t2\<rparr>) tx)))"
proof (intro allI)
  fix H :: "string \<Rightarrow> string" and fr :: "real \<Rightarrow> string" and lt :: "string set"
    and s :: ILState and tx :: string
  obtain u1 u2 :: int where ne: "u1 \<noteq> u2"
    and eq: "trace_digest H fr (last_n 6 (K_hist s @ [fst (estimate_coherence lt tx)]))
               (last_n 6 (R_hist s @ [estimate_recursion tx])) u1
             = trace_digest H fr (last_n 6 (K_hist s @ [fst (estimate_coherence lt tx)]))
               (last_n 6 (R_hist s @ [estimate_recursion tx])) u2"
    using trace_digest_not_injective by blast
  have "turn_index (fst (snd (update_state H fr lt (s\<lparr>turn_index := u1 - 1\<rparr>) tx)))
        \<noteq> turn_index (fst (snd (update_state H fr lt (s\<lparr>turn_index := u2 - 1\<rparr>) tx)))"
    using ne by (simp add: update_state_fields(1) [OF refl])
  moreover have "trace_hash (fst (snd (update_state H fr lt (s\<lparr>turn_index := u1 - 1\<rparr>) tx)))
        = trace_hash (fst (snd (update_state H fr lt (s\<lparr>turn_index := u2 - 1\<rparr>) tx)))"
    using eq by (simp add: update_state_fields(1,3,4,9) [OF refl])
  ultimately show "\<exists>t1 t2.
      turn_index (fst (snd (update_state H fr lt (s\<lparr>turn_index := t1\<rparr>) tx)))
        \<noteq> turn_index (fst (snd (update_state H fr lt (s\<lparr>turn_index := t2\<rparr>) tx)))
      \<and> trace_hash (fst (snd (update_state H fr lt (s\<lparr>turn_index := t1\<rparr>) tx)))
        = trace_hash (fst (snd (update_state H fr lt (s\<lparr>turn_index := t2\<rparr>) tx)))"
    by blast
qed

text \<open>
  C9, as amended.  The \<open>trace_hash\<close> written by an update is the 16-character digest of the
  new \<open>(K_hist, R_hist, turn_index)\<close> and of nothing else: two states built independently,
  whatever their other fields and the texts that led to them, have the same \<open>trace_hash\<close>
  when they agree on that triple.
\<close>

theorem trace_hash_deterministic:
  assumes "s1' = fst (snd (update_state H fr lt1 s1 tx1))"
    and "s2' = fst (snd (update_state H fr lt2 s2 tx2))"
    and "K_hist s1' = K_hist s2'" and "R_hist s1' = R_hist s2'"
    and "turn_index s1' = turn_index s2'"
  shows "trace_hash s1' = trace_hash s2'
         \<and> trace_hash s1' = trace_digest H fr (K_hist s1') (R_hist s1') (turn_index s1')
         \<and> length (trace_hash s1') \<le> 16"
  using assms(3-5) update_state_fields(9) [OF assms(1)] update_state_fields(9) [OF assms(2)]
  by (simp add: trace_digest_length)

theorem trace_hash_deterministic_witness:
  "K_hist (fst (snd (update_state (\<lambda>b. b) (\<lambda>r. ''0'') {} ILState_default [])))
     = K_hist (fst (snd (update_state (\<lambda>b. b) (\<lambda>r. ''0'') {''a''}
          (ILState_default\<lparr>cooldown_active := True, K_t := 0.2\<rparr>) '' '')))
   \<and> R_hist (fst (snd (update_state (\<lambda>b. b) (\<lambda>r. ''0'') {} ILState_default [])))
     = R_hist (fst (snd (update_state (\<lambda>b. b) (\<lambda>r. ''0'') {''a''}
          (ILState_default\<lparr>cooldown_active := True, K_t := 0.2\<rparr>) '' '')))
   \<and> turn_index (fst (snd (update_state (\<lambda>b. b) (\<lambda>r. ''0'') {} ILState_default [])))
     = turn_index (fst (snd (update_state (\<lambda>b. b) (\<lambda>r. ''0'') {''a''}
          (ILState_default\<lparr>cooldown_active := True, K_t := 0.2\<rparr>) '' '')))
   \<and> trace_hash (fst (snd (update_state (\<lambda>b. b) (\<lambda>r. ''0'') {} ILState_default [])))
     = trace_hash (fst (snd (update_state (\<lambda>b. b) (\<lambda>r. ''0'') {''a''}
          (ILState_default\<lparr>cooldown_active := True, K_t := 0.2\<rparr>) '' '')))"
proof -
  have e1: "estimate_coherence {} [] = (0, {})"
    and e2: "estimate_coherence {''a''} '' '' = (0, {''a''})"
    by (simp_all add: estimate_coherence_def strip_def is_space_def)
  have r: "estimate_recursion '' '' = estimate_recursion []"
    by code_simp
  have k: "K_hist (fst (snd (update_state (\<lambda>b. b) (\<lambda>r. ''0'') {} ILState_default [])))
     = K_hist (fst (snd (update_state (\<lambda>b. b) (\<lambda>r. ''0'') {''a''}
          (ILState_default\<lparr>cooldown_active := True, K_t := 0.2\<rparr>) '' '')))"
    by (simp add: update_state_fields(3) [OF refl] e1 e2 ILState_default_def)
  have h: "R_hist (fst (snd (update_state (\<lambda>b. b) (\<lambda>r. ''0'') {} ILState_default [])))
     = R_hist (fst (snd (update_state (\<lambda>b. b) (\<lambda>r. ''0'') {''a''}
          (ILState_default\<lparr>cooldown_active := True, K_t := 0.2\<rparr>) '' '')))"
    by (simp add: update_state_fields(4) [OF refl] r ILState_default_def)
  have t: "turn_index (fst (snd (update_state (\<lambda>b. b) (\<lambda>r. ''0'') {} ILState_default [])))
     = turn_index (fst (snd (update_state (\<lambda>b. b) (\<lambda>r. ''0'') {''a''}
          (ILState_default\<lparr>cooldown_active := True, K_t := 0.2\<rparr>) '' '')))"
    by (simp add: update_state_fields(1) [OF refl] ILState_default_def)
  from trace_hash_deterministic [OF refl refl k h t]
  show ?thesis using k h t by blast
qed

section \<open>Claims about the entropy gate\<close>

lemma last_n_append_last_n: "last_n n (last_n n xs @ ys) = last_n n (xs @ ys)"
proof (cases "length xs \<le> n")
  case True
  then show ?thesis by (simp add: last_n_def)
next
  case False
  then have "length xs + length ys - (length xs - n + n) + (length xs - n)
               = length xs + length ys - n"
    by simp
  then show ?thesis by (simp add: last_n_def)
qed

lemma last_n_length: "length (last_n n xs) = min n (length xs)"
  by (simp add: last_n_def)

lemma last_n_short: "length xs \<le> n \<Longrightarrow> last_n n xs = xs"
  by (simp add: last_n_def)

lemma deque_append_last_n:
  "length w \<le> n \<Longrightarrow> deque_append n w x = last_n n (w @ [x])"
proof (cases "length w = n")
  case True
  then have "Suc n - n = Suc 0" by simp
  then show ?thesis
    using True by (cases w) (auto simp: deque_append_def last_n_def Let_def drop_Suc)
next
  case False
  assume "length w \<le> n"
  with False have "length w < n" by simp
  then show ?thesis by (simp add: deque_append_def last_n_def Let_def)
qed

lemma process_window:
  "entropy_window (snd (snd (process S E g tx)))
     = deque_append WINDOW_SIZE (entropy_window g) (measure_entropy (strip tx))"
  by (simp add: process_def Let_def extract_signal_def)

lemma process_mean_entropy:
  "map_of (fst (process S E g tx)) ''mean_entropy''
     = Some (PyNum (py_round
         (let w = entropy_window (snd (snd (process S E g tx)))
          in if w \<noteq> [] then fdiv (S w) (real (length w)) else 0) 4))"
  by (simp add: process_def Let_def)

lemma process_all_snoc:
  "process_all S E g (ts @ [t]) =
     (fst (process_all S E g ts)
        @ [(fst (process S E (snd (process_all S E g ts)) t),
            fst (snd (process S E (snd (process_all S E g ts)) t)))],
      snd (snd (process S E (snd (process_all S E g ts)) t)))"
  by (induction ts arbitrary: g) (auto split: prod.splits)

lemma process_all_window:
  "length (entropy_window g) \<le> 10 \<Longrightarrow>
   entropy_window (snd (process_all S E g ts))
     = last_n 10 (entropy_window g @ map (\<lambda>t. measure_entropy (strip t)) ts)"
proof (induction ts rule: rev_induct)
  case Nil
  then show ?case by (simp add: last_n_short)
next
  case (snoc t ts)
  have len: "length (entropy_window (snd (process_all S E g ts))) \<le> 10"
    using snoc by (simp add: last_n_length)
  show ?case
    using snoc len
    by (simp add: process_all_snoc process_window WINDOW_SIZE_def deque_append_last_n
        last_n_append_last_n)
qed

lemma process_all_single:
  "process_all S E g [t] = ([(fst (process S E g t), fst (snd (process S E g t)))],
                            snd (snd (process S E g t)))"
  by (simp split: prod.splits)

lemma aab_entropy: "measure_entropy (strip ''aab'') = to_double (2 / 3)"
  by (simp add: measure_entropy_def strip_def is_space_def fdiv_def)

lemma aab_rounding:
  "py_round (fdiv (float_sum [to_double (2 / 3)]) 1) 4 = to_double 0.6667
   \<and> to_double 0.6667 \<noteq> to_double (2 / 3)"
  by (simp add: float_sum_def float_eval)

text \<open>
  One call with the text \<open>aab\<close> on a fresh gate: the window holds the one sample, the float
  nearest to 2/3, and the snapshot reports the float nearest to 0.6667, which is not the
  mean of the window.
\<close>

theorem process_mean_entropy_counterexample:
  "entropy_window (snd (process_all float_sum ENTROPY_MAX_default IntelligenceGate_init [''aab'']))
     = [to_double (2 / 3)]
   \<and> map_of (fst (last (fst (process_all float_sum ENTROPY_MAX_default IntelligenceGate_init
                                 [''aab''])))) ''mean_entropy''
     = Some (PyNum (to_double 0.6667))
   \<and> PyNum (to_double 0.6667)
     \<noteq> PyNum (sum_list [to_double (2 / 3)] / real (length [to_double (2 / 3)]))"
proof -
  have w: "entropy_window (snd (snd (process float_sum ENTROPY_MAX_default
                                        IntelligenceGate_init ''aab'')))
             = [to_double (2 / 3)]"
    by (simp add: process_window aab_entropy deque_append_def WINDOW_SIZE_def
        IntelligenceGate_init_def)
  have m: "map_of (fst (process float_sum ENTROPY_MAX_default IntelligenceGate_init ''aab''))
             ''mean_entropy''
           = Some (PyNum (py_round (fdiv (float_sum [to_double (2 / 3)]) 1) 4))"
    by (simp add: process_mean_entropy w)
  show ?thesis
    using aab_rounding unfolding process_all_single by (simp add: w m)
qed

text \<open>
  C7, as amended.  After \<open>N \<ge> 1\<close> calls of \<open>process\<close> on a fresh gate the window holds
  exactly the last \<open>min(10, N)\<close> entropy samples, oldest first, and the \<open>mean_entropy\<close>
  entry of the snapshot of the last call is the mean the code computes from them, the float
  quotient of their \<^verbatim>\<open>sum\<close> by their number, rounded to 4 decimals.
\<close>

theorem process_window_fifo:
  assumes "ts \<noteq> []"
  shows "entropy_window (snd (process_all S E IntelligenceGate_init ts))
           = last_n 10 (map (\<lambda>t. measure_entropy (extract_signal t)) ts)
         \<and> length (entropy_window (snd (process_all S E IntelligenceGate_init ts)))
           = min 10 (length ts)
         \<and> map_of (fst (last (fst (process_all S E IntelligenceGate_init ts)))) ''mean_entropy''
           = Some (PyNum (py_round
               (fdiv (S (last_n 10 (map (\<lambda>t. measure_entropy (extract_signal t)) ts)))
                  (real (min 10 (length ts)))) 4))"
proof -
  let ?g = IntelligenceGate_init
  let ?samples = "map (\<lambda>t. measure_entropy (extract_signal t)) ts"
  have w: "entropy_window (snd (process_all S E ?g ts)) = last_n 10 ?samples"
    using process_all_window [of ?g S E ts]
    by (simp add: IntelligenceGate_init_def extract_signal_def)
  have len: "length (entropy_window (snd (process_all S E ?g ts))) = min 10 (length ts)"
    by (simp add: w last_n_length)
  obtain us t where ts: "ts = us @ [t]"
    using assms by (cases ts rule: rev_cases) auto
  have fin: "snd (process_all S E ?g ts) = snd (snd (process S E (snd (process_all S E ?g us)) t))"
    and lst: "fst (last (fst (process_all S E ?g ts)))
                = fst (process S E (snd (process_all S E ?g us)) t)"
    by (simp_all add: ts process_all_snoc)
  have ne: "entropy_window (snd (process_all S E ?g ts)) \<noteq> []"
    using len assms by (cases ts) auto
  have "map_of (fst (last (fst (process_all S E ?g ts)))) ''mean_entropy''
          = Some (PyNum (py_round
              (fdiv (S (entropy_window (snd (process_all S E ?g ts))))
                 (real (length (entropy_window (snd (process_all S E ?g ts)))))) 4))"
    using ne unfolding lst fin by (simp add: process_mean_entropy Let_def)
  then show ?thesis using w len by simp
qed

lemma sixteen_samples:
  "map (\<lambda>t. measure_entropy (extract_signal t))
     [''aaaaaaaaaaaaaaaa'', [], [], [], [], [], [], [], [], []]
   = [fdiv 1 16, 0, 0, 0, 0, 0, 0, 0, 0, 0]"
  by (simp add: measure_entropy_def extract_signal_def strip_def is_space_def)

lemma sixteen_rounding:
  "py_round (fdiv (float_sum [fdiv 1 16, 0, 0, 0, 0, 0, 0, 0, 0, 0]) 10) 4 = to_double 0.0063"
  by (simp add: float_sum_def float_eval)

theorem process_window_fifo_witness:
  "[''aaaaaaaaaaaaaaaa'', [], [], [], [], [], [], [], [], []] \<noteq> ([] :: string list)
   \<and> entropy_window (snd (process_all float_sum ENTROPY_MAX_default IntelligenceGate_init
        [''aaaaaaaaaaaaaaaa'', [], [], [], [], [], [], [], [], []]))
       = [fdiv 1 16, 0, 0, 0, 0, 0, 0, 0, 0, 0]
   \<and> map_of (fst (last (fst (process_all float_sum ENTROPY_MAX_default IntelligenceGate_init
        [''aaaaaaaaaaaaaaaa'', [], [], [], [], [], [], [], [], []])))) ''mean_entropy''
       = Some (PyNum (to_double 0.0063))"
proof -
  have ne: "[''aaaaaaaaaaaaaaaa'', [], [], [], [], [], [], [], [], []] \<noteq> ([] :: string list)"
    by simp
  from process_window_fifo [OF ne, of float_sum ENTROPY_MAX_default]
  show ?thesis
    unfolding sixteen_samples using sixteen_rounding by (simp add: last_n_def)
qed
section \<open>Claims about the invariant verifier\<close>

lemma check_rules_acc:
  "check_rules i e rules failures = failures @ violations i e rules"
  by (induction rules arbitrary: failures)
     (auto simp: violations_def split: sum.splits)

lemma check_events_acc:
  "check_events i es failures
     = failures @ concat (map (\<lambda>(j, e). violations j e INVARIANTS) (enumerate i es))"
  by (induction es arbitrary: i failures) (simp_all add: check_rules_acc)

lemma verify_no_events:
  "load_events jl lg = [] \<Longrightarrow> verify jl lg = (NoData, 1)"
  by (simp add: verify_def)

lemma verify_events:
  "load_events jl lg \<noteq> [] \<Longrightarrow>
   verify jl lg =
     (let failures = concat (map (\<lambda>(j, e). violations j e INVARIANTS)
                               (enumerate 0 (load_events jl lg)))
      in if failures \<noteq> []
         then (ViolationsDetected (map (\<lambda>(idx, name, detail). (idx, name)) failures), 2)
         else (InvariantsVerified (length (load_events jl lg)) (length INVARIANTS), 0))"
  by (simp add: verify_def check_events_acc Let_def)

lemma violations_dampening_only:
  assumes "entropy_bound e = Inr True" and "mean_entropy_bound e = Inr True"
    and "no_identity_write e = Inr True" and "constraints_explicit e = Inr True"
    and "subscript e ''dampening'' = Inr (PyNum 1.5)"
  shows "violations i e INVARIANTS = [(i, ''dampening_range'', Event e)]"
proof -
  have "dampening_range e = Inr False"
    using assms(5) by (simp add: dampening_range_def)
  then show ?thesis
    using assms(1-4) by (simp add: violations_def INVARIANTS_def)
qed

text \<open>
  C8.  On a log that is absent, empty or without a readable line the verifier reports that
  there is no data and returns 1, not the CLEAN report.  On a log of one record that passes
  the four other rules and has \<open>dampening = 1.5\<close> it reports exactly one violation, the
  rule \<open>dampening_range\<close> at event 0, and returns 2.  In general it goes through every
  event and every rule: the violations it reports are those of all events, in order.
\<close>

theorem verify_empty_and_dampening:
  "(load_events jl lg = [] \<longrightarrow> verify jl lg = (NoData, 1))
   \<and> verify jl None = (NoData, 1) \<and> verify jl (Some []) = (NoData, 1)
   \<and> (jl line = Some e \<and> entropy_bound e = Inr True \<and> mean_entropy_bound e = Inr True
        \<and> no_identity_write e = Inr True \<and> constraints_explicit e = Inr True
        \<and> subscript e ''dampening'' = Inr (PyNum 1.5)
      \<longrightarrow> verify jl (Some [line]) = (ViolationsDetected [(0, ''dampening_range'')], 2))
   \<and> (load_events jl lg \<noteq> [] \<longrightarrow>
        verify jl lg =
          (let failures = concat (map (\<lambda>(j, e). violations j e INVARIANTS)
                                    (enumerate 0 (load_events jl lg)))
           in if failures \<noteq> []
              then (ViolationsDetected (map (\<lambda>(idx, name, detail). (idx, name)) failures), 2)
              else (InvariantsVerified (length (load_events jl lg)) (length INVARIANTS), 0)))"
proof -
  have one: "verify jl (Some [line]) = (ViolationsDetected [(0, ''dampening_range'')], 2)"
    if "jl line = Some e" and "entropy_bound e = Inr True" and "mean_entropy_bound e = Inr True"
      and "no_identity_write e = Inr True" and "constraints_explicit e = Inr True"
      and "subscript e ''dampening'' = Inr (PyNum 1.5)"
  proof -
    have ev: "load_events jl (Some [line]) = [e]"
      using that(1) by (simp add: load_events_def)
    show ?thesis
      using verify_events [of jl "Some [line]"] violations_dampening_only [OF that(2-6), of 0]
      by (simp add: ev)
  qed
  have none: "verify jl None = (NoData, 1)" "verify jl (Some []) = (NoData, 1)"
    by (simp_all add: verify_no_events load_events_def)
  show ?thesis
    using one none verify_no_events [of jl lg] verify_events [of jl lg] by blast
qed

theorem verify_empty_and_dampening_witness:
  "load_events
     (\<lambda>l. if l = ''rec''
           then Some (PyDict [(''entropy'', PyNum 0.5), (''mean_entropy'', PyNum 0.4),
                     (''dampening'', PyNum 1.5), (''identity_pressure'', PyNum 0),
                     (''active_constraints'', PyList [])])
           else None)
     None = []
   \<and> (\<lambda>l. if l = ''rec''
           then Some (PyDict [(''entropy'', PyNum 0.5), (''mean_entropy'', PyNum 0.4),
                     (''dampening'', PyNum 1.5), (''identity_pressure'', PyNum 0),
                     (''active_constraints'', PyList [])])
           else None) ''rec''
       = Some (PyDict [(''entropy'', PyNum 0.5), (''mean_entropy'', PyNum 0.4),
                       (''dampening'', PyNum 1.5), (''identity_pressure'', PyNum 0),
                       (''active_constraints'', PyList [])])
   \<and> entropy_bound
       (PyDict [(''entropy'', PyNum 0.5), (''mean_entropy'', PyNum 0.4),
                       (''dampening'', PyNum 1.5), (''identity_pressure'', PyNum 0),
                       (''active_constraints'', PyList [])]) = Inr True
   \<and> mean_entropy_bound
       (PyDict [(''entropy'', PyNum 0.5), (''mean_entropy'', PyNum 0.4),
                       (''dampening'', PyNum 1.5), (''identity_pressure'', PyNum 0),
                       (''active_constraints'', PyList [])]) = Inr True
   \<and> no_identity_write
       (PyDict [(''entropy'', PyNum 0.5), (''mean_entropy'', PyNum 0.4),
                       (''dampening'', PyNum 1.5), (''identity_pressure'', PyNum 0),
                       (''active_constraints'', PyList [])]) = Inr True
   \<and> constraints_explicit
       (PyDict [(''entropy'', PyNum 0.5), (''mean_entropy'', PyNum 0.4),
                       (''dampening'', PyNum 1.5), (''identity_pressure'', PyNum 0),
                       (''active_constraints'', PyList [])]) = Inr True
   \<and> subscript
       (PyDict [(''entropy'', PyNum 0.5), (''mean_entropy'', PyNum 0.4),
                       (''dampening'', PyNum 1.5), (''identity_pressure'', PyNum 0),
                       (''active_constraints'', PyList [])]) ''dampening'' = Inr (PyNum 1.5)
   \<and> verify
       (\<lambda>l. if l = ''rec''
             then Some (PyDict [(''entropy'', PyNum 0.5), (''mean_entropy'', PyNum 0.4),
                       (''dampening'', PyNum 1.5), (''identity_pressure'', PyNum 0),
                       (''active_constraints'', PyList [])])
             else None)
       (Some [''rec'']) = (ViolationsDetected [(0, ''dampening_range'')], 2)
   \<and> load_events
       (\<lambda>l. if l = ''rec''
             then Some (PyDict [(''entropy'', PyNum 0.5), (''mean_entropy'', PyNum 0.4),
                       (''dampening'', PyNum 1.5), (''identity_pressure'', PyNum 0),
                       (''active_constraints'', PyList [])])
             else None)
       (Some [''bad'', ''rec'']) \<noteq> []
   \<and> verify
       (\<lambda>l. if l = ''rec''
             then Some (PyDict [(''entropy'', PyNum 0.5), (''mean_entropy'', PyNum 0.4),
                       (''dampening'', PyNum 1.5), (''identity_pressure'', PyNum 0),
                       (''active_constraints'', PyList [])])
             else None)
       (Some [''bad'', ''rec'']) = (ViolationsDetected [(0, ''dampening_range'')], 2)"
proof -
  let ?e = "PyDict [(''entropy'', PyNum 0.5), (''mean_entropy'', PyNum 0.4),
                    (''dampening'', PyNum 1.5), (''identity_pressure'', PyNum 0),
                    (''active_constraints'', PyList [])]"
  let ?jl = "\<lambda>l. if l = ''rec'' then Some ?e else None"
  have h: "?jl ''rec'' = Some ?e" "entropy_bound ?e = Inr True"
    "mean_entropy_bound ?e = Inr True" "no_identity_write ?e = Inr True"
    "constraints_explicit ?e = Inr True" "subscript ?e ''dampening'' = Inr (PyNum 1.5)"
    by (simp_all add: entropy_bound_def mean_entropy_bound_def no_identity_write_def
        constraints_explicit_def dict_get_def)
  have l: "load_events ?jl None = []" "load_events ?jl (Some [''bad'', ''rec'']) = [?e]"
    by (simp_all add: load_events_def)
  have v: "violations 0 ?e INVARIANTS = [(0, ''dampening_range'', Event ?e)]"
    using h(2-6) by (rule violations_dampening_only)
  from verify_empty_and_dampening [of ?jl None "''rec''" ?e]
       verify_empty_and_dampening [of ?jl "Some [''bad'', ''rec'']" "''rec''" ?e]
  show ?thesis using h l v by simp
qed
end
